theory Spec2Isabelle
  imports Main "HOL-Library.Word"
begin

section \<open>Entities and wire messages\<close>

text \<open>
  The records follow \<^verbatim>\<open>internal/domain/entities/plugin.go\<close> and
  \<^verbatim>\<open>pkg/types/types.go\<close>. Go strings are \<^typ>\<open>string\<close>. A \<^verbatim>\<open>time.Time\<close> is the
  wall-clock reading in nanoseconds since the epoch (\<^typ>\<open>int\<close>); a \<^verbatim>\<open>time.Duration\<close>
  is Go's \<^verbatim>\<open>int64\<close> count of nanoseconds, a 64-bit word whose negation wraps. The
  nullable \<^verbatim>\<open>*time.Time\<close> of \<^verbatim>\<open>LastHeartbeat\<close> is an option. Where the gateway
  tells a nil slice or map from an empty one (the fields of a Definition and the
  capabilities of a request, which it copies), the field is an option with \<open>None\<close> for
  nil; elsewhere nil and empty coincide. The columns that only the ORM writes
  (\<^verbatim>\<open>CreatedAt\<close>, \<^verbatim>\<open>UpdatedAt\<close>, the preloaded \<^verbatim>\<open>Definition\<close> pointer) are not part
  of the model. Field names carry a prefix because record fields share one name space.
\<close>

type_synonym time = int
type_synonym duration = "64 word"

record PluginDefinition =
  d_ID :: string
  d_Version :: string
  d_APIVersion :: string
  d_DependsOn :: "string list option"
  d_Capabilities :: "string list option"
  d_Enabled :: bool
  d_Metadata :: "(string \<rightharpoonup> string) option"

record PluginInstance =
  i_ID :: string
  i_DefinitionID :: string
  i_Status :: string
  i_Enabled :: bool
  i_Host :: string
  i_Port :: int
  i_AuthToken :: string
  i_LastHeartbeat :: "time option"
  i_StartedAt :: time
  i_Metadata :: "string \<rightharpoonup> string"

definition PluginStatusAvailable :: string where "PluginStatusAvailable = ''available''"
definition PluginStatusRunning :: string where "PluginStatusRunning = ''running''"
definition PluginStatusStopped :: string where "PluginStatusStopped = ''stopped''"
definition PluginStatusUnhealthy :: string where "PluginStatusUnhealthy = ''unhealthy''"

record HandshakeRequest =
  hq_PluginId :: string
  hq_Version :: string
  hq_ApiVersion :: string
  hq_Capabilities :: "string list option"
  hq_Metadata :: "string \<rightharpoonup> string"
  hq_Token :: string

record HandshakeResponse =
  hr_Accepted :: bool
  hr_SessionId :: string
  hr_CoreVersion :: string
  hr_Config :: "string \<rightharpoonup> string"
  hr_Error :: string
  hr_AuthToken :: string

record HeartbeatRequest =
  bq_SessionId :: string
  bq_AuthToken :: string
  bq_Status :: "string \<rightharpoonup> string"

record HeartbeatResponse =
  br_Ok :: bool
  br_Message :: string

record PluginEvent =
  e_SessionId :: string
  e_Type :: string
  e_Data :: string

definition EventTypeShutdown :: string where "EventTypeShutdown = ''shutdown''"
definition EventTypePluginConnected :: string where
  "EventTypePluginConnected = ''plugin_connected''"
definition EventTypePluginDisconnected :: string where
  "EventTypePluginDisconnected = ''plugin_disconnected''"

text \<open>The gRPC status codes that the handlers attach to a rejected request.\<close>

datatype Code = Unauthenticated | PermissionDenied | FailedPrecondition | Internal | NotFound

type_synonym status_error = "(Code \<times> string) option"

section \<open>Configuration\<close>

text \<open>\<^verbatim>\<open>SecurityConfig\<close> of the configuration package: the only part the coordinator reads.\<close>

record SecurityConfig =
  s_Enabled :: bool
  s_AllowedPlugins :: "string list"
  s_PluginToken :: string
  s_HeartbeatTimeout :: string

section \<open>API version compatibility\<close>

text \<open>
  \<^verbatim>\<open>strings.Split(s, ".")\<close> for the one-character separator the code uses: the fields of
  \<open>s\<close> between the separators, in order. The result is never empty, so the index
  \<^verbatim>\<open>[0]\<close> of \<^verbatim>\<open>isAPIVersionCompatible\<close> is always in range.
\<close>

fun Split :: "string \<Rightarrow> char \<Rightarrow> string list" where
  "Split [] sep = [] # []"
| "Split (c # cs) sep =
     (if c = sep then [] # Split cs sep
      else (case Split cs sep of
              [] \<Rightarrow> [c] # []
            | w # ws \<Rightarrow> (c # w) # ws))"

definition isAPIVersionCompatible :: "string \<Rightarrow> string \<Rightarrow> bool" where
  "isAPIVersionCompatible plugin core =
     (let pm = hd (Split plugin (CHR ''.''));
          cm = hd (Split core (CHR ''.''))
      in pm = cm)"

text \<open>The specification's wording: the substring before the first dot.\<close>

definition before_first_dot :: "string \<Rightarrow> string" where
  "before_first_dot s = takeWhile (\<lambda>c. c \<noteq> CHR ''.'') s"

section \<open>Persistence gateway\<close>

text \<open>
  \<^verbatim>\<open>db.Repository\<close> wraps an ORM over two tables. The model keeps the tables and what
  each call does to them: definitions are keyed by id, instance rows keep their order
  (the order \<^verbatim>\<open>ListInstances\<close> returns them in) and have \<^verbatim>\<open>ID\<close> as primary key.
  A Go \<^verbatim>\<open>error\<close> is an optional message. Whether the database fails a call is outside
  the program: \<open>Faults\<close> says, for each read, write and listing, whether the gateway
  reports a failure; a failed call leaves the tables as they were.

  The journal is a history added to the model, not a table: every write the coordinator
  attempts is appended with the Definition table it was made on and the gateway's answer,
  so that the order of the writes and the state each one ran on can be stated.
\<close>

type_synonym error = "string option"

datatype GatewayWrite =
    UpsertDefinitionCall PluginDefinition
  | CreateInstanceCall PluginInstance
  | UpdateInstanceCall PluginInstance

record Attempt =
  at_call :: GatewayWrite
  at_definitions :: "string \<rightharpoonup> PluginDefinition"
  at_error :: error

record Repository =
  plugin_definitions :: "string \<rightharpoonup> PluginDefinition"
  plugin_instances :: "PluginInstance list"
  journal :: "Attempt list"

record Faults =
  upsert_fails :: "PluginDefinition \<Rightarrow> bool"
  create_fails :: "PluginInstance \<Rightarrow> bool"
  get_fails :: "string \<Rightarrow> bool"
  update_fails :: "PluginInstance \<Rightarrow> bool"
  list_fails :: bool

definition attempted :: "GatewayWrite \<Rightarrow> error \<Rightarrow> Repository \<Rightarrow> Attempt list" where
  "attempted c e r =
     journal r @ [\<lparr>at_call = c, at_definitions = plugin_definitions r, at_error = e\<rparr>]"

text \<open>
  \<^verbatim>\<open>UpsertDefinition\<close> is \<^verbatim>\<open>Where("id = ?", def.ID).Assign(*def).FirstOrCreate(def)\<close>.
  When no row has the id, the ORM inserts \<open>def\<close>; a column declared with a default
  (\<^verbatim>\<open>Enabled\<close>, \<^verbatim>\<open>default:true\<close>) takes the default when its field is the zero value.
  When a row has the id, the ORM updates it with the assigned struct, and of a struct it
  writes only the fields that are not the zero value: an empty string, \<open>false\<close>, a nil
  slice or map leave the stored column as it is.
\<close>

definition assign_nonzero :: "PluginDefinition \<Rightarrow> PluginDefinition \<Rightarrow> PluginDefinition" where
  "assign_nonzero d old =
     old\<lparr>d_Version := (if d_Version d = [] then d_Version old else d_Version d),
         d_APIVersion := (if d_APIVersion d = [] then d_APIVersion old else d_APIVersion d),
         d_DependsOn := (case d_DependsOn d of None \<Rightarrow> d_DependsOn old | Some x \<Rightarrow> Some x),
         d_Capabilities :=
           (case d_Capabilities d of None \<Rightarrow> d_Capabilities old | Some x \<Rightarrow> Some x),
         d_Enabled := (if d_Enabled d then True else d_Enabled old),
         d_Metadata := (case d_Metadata d of None \<Rightarrow> d_Metadata old | Some x \<Rightarrow> Some x)\<rparr>"

definition upserted :: "PluginDefinition \<Rightarrow> PluginDefinition option \<Rightarrow> PluginDefinition" where
  "upserted d found =
     (case found of
        None \<Rightarrow> d\<lparr>d_Enabled := True\<rparr>
      | Some old \<Rightarrow> assign_nonzero d old)"

definition UpsertDefinition ::
  "Faults \<Rightarrow> PluginDefinition \<Rightarrow> Repository \<Rightarrow> error \<times> Repository" where
  "UpsertDefinition g d r =
     (if upsert_fails g d then
        (Some ''database error'',
         r\<lparr>journal := attempted (UpsertDefinitionCall d) (Some ''database error'') r\<rparr>)
      else
        (None,
         r\<lparr>plugin_definitions :=
              (plugin_definitions r)(d_ID d \<mapsto> upserted d (plugin_definitions r (d_ID d))),
           journal := attempted (UpsertDefinitionCall d) None r\<rparr>))"

text \<open>\<^verbatim>\<open>CreateInstance\<close> inserts the row; \<^verbatim>\<open>Enabled\<close> has the same column default.\<close>

definition CreateInstance ::
  "Faults \<Rightarrow> PluginInstance \<Rightarrow> Repository \<Rightarrow> error \<times> Repository" where
  "CreateInstance g inst r =
     (if create_fails g inst then
        (Some ''database error'',
         r\<lparr>journal := attempted (CreateInstanceCall inst) (Some ''database error'') r\<rparr>)
      else if i_ID inst \<in> set (map i_ID (plugin_instances r)) then
        (Some ''UNIQUE constraint failed'',
         r\<lparr>journal :=
              attempted (CreateInstanceCall inst) (Some ''UNIQUE constraint failed'') r\<rparr>)
      else
        (None,
         r\<lparr>plugin_instances := plugin_instances r @ [inst\<lparr>i_Enabled := True\<rparr>],
           journal := attempted (CreateInstanceCall inst) None r\<rparr>))"

text \<open>
  The row stored under an id, read off the table. \<^verbatim>\<open>GetInstance\<close> is the gateway's
  read of it: it returns an error when the database fails the read and when no row has
  the id, and the callers treat the two alike.
\<close>

definition stored_instance :: "Repository \<Rightarrow> string \<Rightarrow> PluginInstance option" where
  "stored_instance r ident = find (\<lambda>row. i_ID row = ident) (plugin_instances r)"

definition GetInstance :: "Faults \<Rightarrow> Repository \<Rightarrow> string \<Rightarrow> string + PluginInstance" where
  "GetInstance g r ident =
     (if get_fails g ident then Inl ''database error''
      else (case stored_instance r ident of
              None \<Rightarrow> Inl ''record not found''
            | Some inst \<Rightarrow> Inr inst))"

definition ListInstances :: "Faults \<Rightarrow> Repository \<Rightarrow> string + PluginInstance list" where
  "ListInstances g r =
     (if list_fails g then Inl ''database error'' else Inr (plugin_instances r))"

text \<open>
  \<^verbatim>\<open>Save\<close> writes every column, zero or not, of the row with the same primary key; with
  no such row it inserts, as \<^verbatim>\<open>CreateInstance\<close> does.
\<close>

definition save_row :: "PluginInstance \<Rightarrow> PluginInstance list \<Rightarrow> PluginInstance list" where
  "save_row inst rows =
     (if i_ID inst \<in> set (map i_ID rows)
      then map (\<lambda>row. if i_ID row = i_ID inst then inst else row) rows
      else rows @ [inst\<lparr>i_Enabled := True\<rparr>])"

definition UpdateInstance ::
  "Faults \<Rightarrow> PluginInstance \<Rightarrow> Repository \<Rightarrow> error \<times> Repository" where
  "UpdateInstance g inst r =
     (if update_fails g inst then
        (Some ''database error'',
         r\<lparr>journal := attempted (UpdateInstanceCall inst) (Some ''database error'') r\<rparr>)
      else
        (None,
         r\<lparr>plugin_instances := save_row inst (plugin_instances r),
           journal := attempted (UpdateInstanceCall inst) None r\<rparr>))"

section \<open>Event bus\<close>

text \<open>
  A buffered Go channel is its queue and its capacity. The subscriber table maps an
  instance id to the channel made for it; \<^verbatim>\<open>Unsubscribe\<close> and \<^verbatim>\<open>Stop\<close> close a channel
  and delete it from the table in one critical section, so every channel in the table is
  open. The model is sequential: each operation runs to its end under the bus's lock
  discipline, and a receiver is a separate step.
\<close>

record Chan =
  buf :: "PluginEvent list"
  cap :: nat

record EventBusError =
  err_Code :: string
  err_Message :: string

definition ErrPluginNotFound :: string where "ErrPluginNotFound = ''plugin_not_found''"
definition ErrChannelFull :: string where "ErrChannelFull = ''channel_full''"

record EventBus =
  subs :: "string \<rightharpoonup> Chan"
  broadcast :: Chan
  broadcast_closed :: bool

definition make_chan :: "nat \<Rightarrow> Chan" where
  "make_chan n = \<lparr>buf = [], cap = n\<rparr>"

definition NewEventBus :: EventBus where
  "NewEventBus = \<lparr>subs = Map.empty, broadcast = make_chan 100, broadcast_closed = False\<rparr>"

text \<open>
  \<^verbatim>\<open>select { case ch <- event: ... default: ... }\<close>: the send goes through when the
  buffer has room, and the \<^verbatim>\<open>default\<close> branch (\<open>None\<close>) runs otherwise; it never blocks.
\<close>

definition select_send :: "PluginEvent \<Rightarrow> Chan \<Rightarrow> Chan option" where
  "select_send event ch =
     (if length (buf ch) < cap ch then Some (ch\<lparr>buf := buf ch @ [event]\<rparr>) else None)"

definition Subscribe :: "string \<Rightarrow> EventBus \<Rightarrow> EventBus" where
  "Subscribe instanceID eb = eb\<lparr>subs := (subs eb)(instanceID \<mapsto> make_chan 50)\<rparr>"

definition Unsubscribe :: "string \<Rightarrow> EventBus \<Rightarrow> EventBus" where
  "Unsubscribe instanceID eb =
     (case subs eb instanceID of
        Some ch \<Rightarrow> eb\<lparr>subs := (subs eb)(instanceID := None)\<rparr>
      | None \<Rightarrow> eb)"

definition SendDirect ::
  "string \<Rightarrow> PluginEvent \<Rightarrow> EventBus \<Rightarrow> EventBusError option \<times> EventBus" where
  "SendDirect instanceID event eb =
     (case subs eb instanceID of
        None \<Rightarrow>
          (Some \<lparr>err_Code = ErrPluginNotFound,
                 err_Message = ''plugin not found or not subscribed''\<rparr>, eb)
      | Some ch \<Rightarrow>
          (case select_send event ch of
             Some ch' \<Rightarrow> (None, eb\<lparr>subs := (subs eb)(instanceID \<mapsto> ch')\<rparr>)
           | None \<Rightarrow>
               (Some \<lparr>err_Code = ErrChannelFull,
                      err_Message = ''plugin event channel is full''\<rparr>, eb)))"

text \<open>
  \<^verbatim>\<open>SendBroadcast\<close> copies the table and tries a non-blocking send on every channel of the
  copy. Each channel is touched once, so the order of Go's map iteration does not show in
  the result.
\<close>

definition SendBroadcast :: "PluginEvent \<Rightarrow> EventBus \<Rightarrow> EventBus" where
  "SendBroadcast event eb =
     eb\<lparr>subs := (\<lambda>k. case subs eb k of
                        None \<Rightarrow> None
                      | Some ch \<Rightarrow>
                          (case select_send event ch of
                             Some ch' \<Rightarrow> Some ch'
                           | None \<Rightarrow> Some ch))\<rparr>"

text \<open>
  The goroutine of \<^verbatim>\<open>EventBus.Start\<close> ranges over the relay channel; one iteration takes
  the oldest relayed event and hands it to \<^verbatim>\<open>SendBroadcast\<close>. With nothing queued the
  goroutine waits (or ends, once the channel is closed): \<open>None\<close>.
\<close>

definition relay_worker_step :: "EventBus \<Rightarrow> EventBus option" where
  "relay_worker_step eb =
     (case buf (broadcast eb) of
        [] \<Rightarrow> None
      | event # rest \<Rightarrow>
          Some (SendBroadcast event (eb\<lparr>broadcast := (broadcast eb)\<lparr>buf := rest\<rparr>\<rparr>)))"

text \<open>\<^verbatim>\<open>Stop\<close> closes and deletes every subscriber channel, then closes the relay channel.\<close>

definition EventBus_Stop :: "EventBus \<Rightarrow> EventBus" where
  "EventBus_Stop eb = eb\<lparr>subs := Map.empty, broadcast_closed := True\<rparr>"

text \<open>A run of direct sends to one id with no receive in between, results in order.\<close>

fun SendDirect_each ::
  "string \<Rightarrow> PluginEvent list \<Rightarrow> EventBus \<Rightarrow> EventBusError option list \<times> EventBus" where
  "SendDirect_each instanceID [] eb = ([], eb)"
| "SendDirect_each instanceID (event # events) eb =
     (let (res, eb1) = SendDirect instanceID event eb;
          (ress, eb2) = SendDirect_each instanceID events eb1
      in (res # ress, eb2))"

section \<open>Plugin manager\<close>

text \<open>
  The manager holds the configuration, the gateway and the bus. What the handlers draw
  from outside is a parameter: the gateway's faults \<open>g\<close>, the session id and auth token
  read from the random source, and the clock reading \<open>now\<close>. Log lines are not modelled.
\<close>

record PluginManager =
  config :: SecurityConfig
  repo :: Repository
  eventBus :: EventBus
  stopped :: bool

definition NewManager :: "SecurityConfig \<Rightarrow> Repository \<Rightarrow> PluginManager" where
  "NewManager cfg r = \<lparr>config = cfg, repo = r, eventBus = NewEventBus, stopped = False\<rparr>"

text \<open>The loop over \<^verbatim>\<open>AllowedPlugins\<close> that sets \<^verbatim>\<open>allowed\<close> and breaks at the first match.\<close>

fun allowed_loop :: "string list \<Rightarrow> string \<Rightarrow> bool" where
  "allowed_loop [] pluginId = False"
| "allowed_loop (p # ps) pluginId = (if p = pluginId then True else allowed_loop ps pluginId)"

definition rejected :: "string \<Rightarrow> HandshakeResponse" where
  "rejected msg =
     \<lparr>hr_Accepted = False, hr_SessionId = [], hr_CoreVersion = [], hr_Config = Map.empty,
      hr_Error = msg, hr_AuthToken = []\<rparr>"

definition new_definition :: "HandshakeRequest \<Rightarrow> PluginDefinition" where
  "new_definition req =
     \<lparr>d_ID = hq_PluginId req, d_Version = hq_Version req, d_APIVersion = hq_ApiVersion req,
      d_DependsOn = Some [], d_Capabilities = hq_Capabilities req, d_Enabled = True,
      d_Metadata = None\<rparr>"

definition new_instance :: "string \<Rightarrow> string \<Rightarrow> time \<Rightarrow> HandshakeRequest \<Rightarrow> PluginInstance" where
  "new_instance sessionID authToken now req =
     \<lparr>i_ID = sessionID, i_DefinitionID = hq_PluginId req, i_Status = PluginStatusRunning,
      i_Enabled = True, i_Host = [], i_Port = 0, i_AuthToken = authToken,
      i_LastHeartbeat = Some now, i_StartedAt = now, i_Metadata = hq_Metadata req\<rparr>"

definition connected_event :: "HandshakeRequest \<Rightarrow> PluginEvent" where
  "connected_event req =
     \<lparr>e_SessionId = [], e_Type = EventTypePluginConnected, e_Data = hq_PluginId req\<rparr>"

definition accepted :: "string \<Rightarrow> string \<Rightarrow> HandshakeResponse" where
  "accepted sessionID authToken =
     \<lparr>hr_Accepted = True, hr_SessionId = sessionID, hr_CoreVersion = ''1.0.0'',
      hr_Config = Map.empty, hr_Error = [], hr_AuthToken = authToken\<rparr>"

text \<open>
  \<^verbatim>\<open>Handshake\<close>, the gRPC handler. The token and allow-list checks sit inside
  \<^verbatim>\<open>if m.config.Security.Enabled\<close>; a failed upsert is logged and the handler goes on.
\<close>

definition Handshake ::
  "Faults \<Rightarrow> string \<Rightarrow> string \<Rightarrow> time \<Rightarrow> PluginManager \<Rightarrow> HandshakeRequest
     \<Rightarrow> (HandshakeResponse \<times> status_error) \<times> PluginManager" where
  "Handshake g sessionID authToken now m req =
     (if s_Enabled (config m) \<and> hq_Token req \<noteq> s_PluginToken (config m) then
        ((rejected ''invalid token'', Some (Unauthenticated, ''invalid token'')), m)
      else if s_Enabled (config m)
              \<and> \<not> allowed_loop (s_AllowedPlugins (config m)) (hq_PluginId req) then
        ((rejected ''plugin not allowed'', Some (PermissionDenied, ''plugin not allowed'')), m)
      else if \<not> isAPIVersionCompatible (hq_ApiVersion req) ''1.0'' then
        ((rejected ''incompatible API version'',
          Some (FailedPrecondition, ''incompatible API version'')), m)
      else
        (let (err1, r1) = UpsertDefinition g (new_definition req) (repo m);
             (err2, r2) = CreateInstance g (new_instance sessionID authToken now req) r1
         in if err2 \<noteq> None then
              ((rejected ''internal error'', Some (Internal, ''failed to create instance'')),
               m\<lparr>repo := r2\<rparr>)
            else
              ((accepted sessionID authToken, None),
               m\<lparr>repo := r2, eventBus := SendBroadcast (connected_event req) (eventBus m)\<rparr>)))"

text \<open>\<^verbatim>\<open>HandshakeHTTP\<close>: the same steps; a rejection is a response with a nil error.\<close>

definition HandshakeHTTP ::
  "Faults \<Rightarrow> string \<Rightarrow> string \<Rightarrow> time \<Rightarrow> PluginManager \<Rightarrow> HandshakeRequest
     \<Rightarrow> (HandshakeResponse \<times> error) \<times> PluginManager" where
  "HandshakeHTTP g sessionID authToken now m req =
     (if s_Enabled (config m) \<and> hq_Token req \<noteq> s_PluginToken (config m) then
        ((rejected ''invalid token'', None), m)
      else if s_Enabled (config m)
              \<and> \<not> allowed_loop (s_AllowedPlugins (config m)) (hq_PluginId req) then
        ((rejected ''plugin not allowed'', None), m)
      else if \<not> isAPIVersionCompatible (hq_ApiVersion req) ''1.0'' then
        ((rejected ''incompatible API version'', None), m)
      else
        (let (err1, r1) = UpsertDefinition g (new_definition req) (repo m);
             (err2, r2) = CreateInstance g (new_instance sessionID authToken now req) r1
         in if err2 \<noteq> None then
              ((rejected ''internal error'', None), m\<lparr>repo := r2\<rparr>)
            else
              ((accepted sessionID authToken, None),
               m\<lparr>repo := r2, eventBus := SendBroadcast (connected_event req) (eventBus m)\<rparr>)))"

text \<open>
  \<^verbatim>\<open>Heartbeat\<close>: any error of the read is answered \<open>session not found\<close>; a failed
  \<^verbatim>\<open>UpdateInstance\<close> is logged and the answer is still ok.
\<close>

definition Heartbeat ::
  "Faults \<Rightarrow> time \<Rightarrow> PluginManager \<Rightarrow> HeartbeatRequest
     \<Rightarrow> (HeartbeatResponse \<times> status_error) \<times> PluginManager" where
  "Heartbeat g now m req =
     (case GetInstance g (repo m) (bq_SessionId req) of
        Inl e \<Rightarrow>
          ((\<lparr>br_Ok = False, br_Message = ''session not found''\<rparr>,
            Some (NotFound, ''session not found'')), m)
      | Inr instance \<Rightarrow>
          if i_AuthToken instance \<noteq> bq_AuthToken req then
            ((\<lparr>br_Ok = False, br_Message = ''invalid auth token''\<rparr>,
              Some (Unauthenticated, ''invalid auth token'')), m)
          else
            (let instance' = instance\<lparr>i_LastHeartbeat := Some now,
                                      i_Status := PluginStatusRunning\<rparr>;
                 (err, r) = UpdateInstance g instance' (repo m)
             in ((\<lparr>br_Ok = True, br_Message = ''ok''\<rparr>, None), m\<lparr>repo := r\<rparr>)))"

text \<open>\<^verbatim>\<open>SetInstanceEnabled\<close>: disabling also stops the instance and sends it a shutdown event.\<close>

definition SetInstanceEnabled ::
  "Faults \<Rightarrow> PluginManager \<Rightarrow> string \<Rightarrow> bool \<Rightarrow> error \<times> PluginManager" where
  "SetInstanceEnabled g m ident enabled =
     (case GetInstance g (repo m) ident of
        Inl e \<Rightarrow> (Some e, m)
      | Inr inst \<Rightarrow>
          (let inst1 = inst\<lparr>i_Enabled := enabled\<rparr>;
               inst2 = (if \<not> enabled then inst1\<lparr>i_Status := PluginStatusStopped\<rparr> else inst1);
               eb = (if \<not> enabled
                     then snd (SendDirect ident
                                 \<lparr>e_SessionId = [], e_Type = EventTypeShutdown,
                                  e_Data = ''instance disabled''\<rparr> (eventBus m))
                     else eventBus m);
               (err, r) = UpdateInstance g inst2 (repo m)
           in (err, m\<lparr>repo := r, eventBus := eb\<rparr>)))"

text \<open>\<^verbatim>\<open>PluginManager.Stop\<close>: the shutdown broadcast, then the bus is stopped.\<close>

definition PluginManager_Stop :: "PluginManager \<Rightarrow> PluginManager" where
  "PluginManager_Stop m =
     m\<lparr>eventBus :=
         EventBus_Stop
           (SendBroadcast \<lparr>e_SessionId = [], e_Type = EventTypeShutdown,
                           e_Data = ''system shutting down''\<rparr> (eventBus m)),
       stopped := True\<rparr>"

section \<open>Liveness sweep\<close>

text \<open>
  \<^verbatim>\<open>checkHeartbeats\<close>. \<^verbatim>\<open>time.ParseDuration\<close> belongs to the Go library and is a
  parameter \<open>parse\<close> that returns a duration and an error, as the Go function does; the
  code drops the error and keeps the duration (\<^verbatim>\<open>d, _ := time.ParseDuration(timeout)\<close>).
  \<^verbatim>\<open>time.Now().Add(-d)\<close> negates the 64-bit duration, which wraps at \<open>- 2 ^ 63\<close>, and
  adds its signed value to the clock reading. \<^verbatim>\<open>Before\<close> compares wall-clock readings,
  since a heartbeat read from the database has no monotonic part. The loop runs over the
  rows that \<^verbatim>\<open>ListInstances\<close> returned, each a copy of its own, and writes back the ones
  it marks.
\<close>

definition stale :: "time \<Rightarrow> PluginInstance \<Rightarrow> bool" where
  "stale cutoff inst =
     (case i_LastHeartbeat inst of None \<Rightarrow> True | Some t \<Rightarrow> t < cutoff)"

fun sweep :: "Faults \<Rightarrow> time \<Rightarrow> PluginInstance list \<Rightarrow> Repository \<Rightarrow> Repository" where
  "sweep g cutoff [] r = r"
| "sweep g cutoff (inst # insts) r =
     (if i_Status inst \<noteq> PluginStatusRunning then sweep g cutoff insts r
      else if stale cutoff inst then
        sweep g cutoff insts
          (snd (UpdateInstance g (inst\<lparr>i_Status := PluginStatusUnhealthy\<rparr>) r))
      else sweep g cutoff insts r)"

definition effective_timeout :: "SecurityConfig \<Rightarrow> string" where
  "effective_timeout cfg =
     (if s_HeartbeatTimeout cfg = [] then ''30s'' else s_HeartbeatTimeout cfg)"

definition checkHeartbeats ::
  "(string \<Rightarrow> duration \<times> error) \<Rightarrow> Faults \<Rightarrow> time \<Rightarrow> PluginManager \<Rightarrow> PluginManager" where
  "checkHeartbeats parse g now m =
     (let timeout = effective_timeout (config m)
      in case ListInstances g (repo m) of
           Inl e \<Rightarrow> m
         | Inr instances \<Rightarrow>
             (let d = fst (parse timeout);
                  cutoff = now + sint (- d)
              in m\<lparr>repo := sweep g cutoff instances (repo m)\<rparr>))"

text \<open>
  What one pass of the sweep's loop leaves in the table for a row: the row marked
  unhealthy when it is running, stale and the gateway takes the write, the row itself
  otherwise.
\<close>

definition swept :: "Faults \<Rightarrow> time \<Rightarrow> PluginInstance \<Rightarrow> PluginInstance" where
  "swept g cutoff inst =
     (if i_Status inst = PluginStatusRunning \<and> stale cutoff inst
         \<and> \<not> update_fails g (inst\<lparr>i_Status := PluginStatusUnhealthy\<rparr>)
      then inst\<lparr>i_Status := PluginStatusUnhealthy\<rparr> else inst)"

section \<open>Client session agent\<close>

text \<open>
  The SDK's \<^verbatim>\<open>Plugin\<close>. The coordinator at the other end of the HTTP call is \<open>Core\<close>:
  what it answers to a handshake request (\<open>Inl\<close> for an error of the call) and the
  requests it has been sent. \<^verbatim>\<open>go f()\<close> adds \<open>f\<close> to the goroutines started;
  \<^verbatim>\<open>wg\<close> is the counter of the wait group. A nil pointer, func or capability slice is
  \<open>None\<close>; a nil metadata map is the empty one.
\<close>

record CoreEvent =
  c_Type :: string
  c_Data :: string

record PluginConfig =
  pc_ID :: string
  pc_Version :: string
  pc_APIVersion :: string
  pc_CoreAddr :: string
  pc_Token :: string
  pc_Capabilities :: "string list option"
  pc_Metadata :: "string \<rightharpoonup> string"
  pc_HeartbeatInterval :: duration
  pc_EventHandler :: "(CoreEvent \<Rightarrow> unit) option"

record PluginClient =
  cl_CoreAddr :: string
  cl_SessionID :: string
  cl_AuthToken :: string

datatype Goroutine = heartbeatLoop | eventLoop

record Plugin =
  p_config :: PluginConfig
  p_client :: "PluginClient option"
  p_wg :: nat
  p_goroutines :: "Goroutine list"
  p_cancelled :: bool

record Core =
  respond :: "HandshakeRequest \<Rightarrow> string + HandshakeResponse"
  received :: "HandshakeRequest list"

definition NewPlugin :: "PluginConfig \<Rightarrow> Plugin" where
  "NewPlugin cfg =
     \<lparr>p_config =
        cfg\<lparr>pc_HeartbeatInterval :=
              (if pc_HeartbeatInterval cfg = 0 then 10 * 1000000000
               else pc_HeartbeatInterval cfg),
            pc_Capabilities :=
              (case pc_Capabilities cfg of None \<Rightarrow> Some [] | Some x \<Rightarrow> Some x)\<rparr>,
      p_client = None, p_wg = 0, p_goroutines = [], p_cancelled = False\<rparr>"

definition client_Handshake ::
  "HandshakeRequest \<Rightarrow> Core \<Rightarrow> (string + HandshakeResponse) \<times> Core" where
  "client_Handshake req w = (respond w req, w\<lparr>received := received w @ [req]\<rparr>)"

definition handshake_request :: "PluginConfig \<Rightarrow> HandshakeRequest" where
  "handshake_request cfg =
     \<lparr>hq_PluginId = pc_ID cfg, hq_Version = pc_Version cfg, hq_ApiVersion = pc_APIVersion cfg,
      hq_Capabilities = pc_Capabilities cfg, hq_Metadata = pc_Metadata cfg,
      hq_Token = pc_Token cfg\<rparr>"

definition Plugin_Start :: "Plugin \<Rightarrow> Core \<Rightarrow> error \<times> Plugin \<times> Core" where
  "Plugin_Start p w =
     (let client = \<lparr>cl_CoreAddr = pc_CoreAddr (p_config p), cl_SessionID = [],
                    cl_AuthToken = []\<rparr>;
          p1 = p\<lparr>p_client := Some client\<rparr>;
          (res, w1) = client_Handshake (handshake_request (p_config p)) w
      in case res of
           Inl err \<Rightarrow> (Some err, p1, w1)
         | Inr resp \<Rightarrow>
             if \<not> hr_Accepted resp then
               (Some (''handshake rejected: '' @ hr_Error resp), p1, w1)
             else
               (let p2 = p1\<lparr>p_client := Some (client\<lparr>cl_SessionID := hr_SessionId resp,
                                                     cl_AuthToken := hr_AuthToken resp\<rparr>)\<rparr>;
                    p3 = p2\<lparr>p_wg := p_wg p2 + 1,
                            p_goroutines := p_goroutines p2 @ [heartbeatLoop]\<rparr>;
                    p4 = (if pc_EventHandler (p_config p) \<noteq> None
                          then p3\<lparr>p_wg := p_wg p3 + 1,
                                  p_goroutines := p_goroutines p3 @ [eventLoop]\<rparr>
                          else p3)
                in (None, p4, w1)))"

section \<open>Reachable bus states and sample inputs\<close>

text \<open>The states the bus can be in: a new bus, changed by any run of its operations.\<close>

inductive reachable :: "EventBus \<Rightarrow> bool" where
  new: "reachable NewEventBus"
| subscribe: "reachable eb \<Longrightarrow> reachable (Subscribe ident eb)"
| unsubscribe: "reachable eb \<Longrightarrow> reachable (Unsubscribe ident eb)"
| send_direct: "reachable eb \<Longrightarrow> reachable (snd (SendDirect ident event eb))"
| send_broadcast: "reachable eb \<Longrightarrow> reachable (SendBroadcast event eb)"
| stop: "reachable eb \<Longrightarrow> reachable (EventBus_Stop eb)"

text \<open>Concrete configurations, gateways and requests on which the theorems are run.\<close>

definition cfg_secure :: SecurityConfig where
  "cfg_secure = \<lparr>s_Enabled = True, s_AllowedPlugins = [], s_PluginToken = ''s3cret'',
                 s_HeartbeatTimeout = ''30s''\<rparr>"

definition cfg_listed :: SecurityConfig where
  "cfg_listed = \<lparr>s_Enabled = True, s_AllowedPlugins = [''backup'', ''webdav''],
                 s_PluginToken = ''s3cret'', s_HeartbeatTimeout = ''30s''\<rparr>"

definition cfg_open :: SecurityConfig where
  "cfg_open = \<lparr>s_Enabled = False, s_AllowedPlugins = [''backup''], s_PluginToken = [],
               s_HeartbeatTimeout = ''30s''\<rparr>"

definition empty_repo :: Repository where
  "empty_repo = \<lparr>plugin_definitions = Map.empty, plugin_instances = [], journal = []\<rparr>"

definition no_faults :: Faults where
  "no_faults = \<lparr>upsert_fails = (\<lambda>d. False), create_fails = (\<lambda>i. False),
                get_fails = (\<lambda>k. False), update_fails = (\<lambda>i. False), list_fails = False\<rparr>"

definition upsert_down :: Faults where
  "upsert_down = no_faults\<lparr>upsert_fails := (\<lambda>d. True)\<rparr>"

definition update_down :: Faults where
  "update_down = no_faults\<lparr>update_fails := (\<lambda>i. True)\<rparr>"

definition read_down :: Faults where
  "read_down = no_faults\<lparr>get_fails := (\<lambda>k. True)\<rparr>"


definition known_repo :: Repository where
  "known_repo =
     \<lparr>plugin_definitions =
        [''webdav'' \<mapsto>
           \<lparr>d_ID = ''webdav'', d_Version = ''0.0.9'', d_APIVersion = ''1.0'',
            d_DependsOn = Some [], d_Capabilities = Some [''files''], d_Enabled = False,
            d_Metadata = None\<rparr>],
      plugin_instances = [], journal = []\<rparr>"

definition req_of :: "string \<Rightarrow> string \<Rightarrow> string \<Rightarrow> HandshakeRequest" where
  "req_of pid api tok =
     \<lparr>hq_PluginId = pid, hq_Version = ''0.1.0'', hq_ApiVersion = api,
      hq_Capabilities = Some [], hq_Metadata = Map.empty, hq_Token = tok\<rparr>"

definition ping :: PluginEvent where
  "ping = \<lparr>e_SessionId = [], e_Type = ''test'', e_Data = ''test''\<rparr>"

definition sample_instance :: "string \<Rightarrow> string \<Rightarrow> time option \<Rightarrow> PluginInstance" where
  "sample_instance ident status hb =
     \<lparr>i_ID = ident, i_DefinitionID = ''webdav'', i_Status = status, i_Enabled = True,
      i_Host = [], i_Port = 0, i_AuthToken = ''tok-'' @ ident, i_LastHeartbeat = hb,
      i_StartedAt = 0, i_Metadata = Map.empty\<rparr>"

definition sample_repo :: Repository where
  "sample_repo =
     \<lparr>plugin_definitions = Map.empty,
      plugin_instances =
        [sample_instance ''a'' PluginStatusRunning (Some 10),
         sample_instance ''b'' PluginStatusStopped (Some 10),
         sample_instance ''c'' PluginStatusRunning (Some 99),
         sample_instance ''d'' PluginStatusRunning None],
      journal = []\<rparr>"

definition parse_sample :: "string \<Rightarrow> duration \<times> error" where
  "parse_sample s =
     (if s = ''30s'' then (30, None)
      else if s = ''-2562047h47m16.854775808s'' then (- (2 ^ 63), None)
      else (0, Some ''time: invalid duration''))"



definition cfg_garbled :: SecurityConfig where
  "cfg_garbled = \<lparr>s_Enabled = False, s_AllowedPlugins = [], s_PluginToken = [],
                  s_HeartbeatTimeout = ''thirty''\<rparr>"

definition beat :: "string \<Rightarrow> string \<Rightarrow> HeartbeatRequest" where
  "beat sid tok = \<lparr>bq_SessionId = sid, bq_AuthToken = tok, bq_Status = Map.empty\<rparr>"

definition sample_config :: "(CoreEvent \<Rightarrow> unit) option \<Rightarrow> PluginConfig" where
  "sample_config handler =
     \<lparr>pc_ID = ''webdav'', pc_Version = ''0.1.0'', pc_APIVersion = ''1.0'',
      pc_CoreAddr = ''localhost:8080'', pc_Token = ''s3cret'', pc_Capabilities = None,
      pc_Metadata = Map.empty, pc_HeartbeatInterval = 0, pc_EventHandler = handler\<rparr>"

definition core_answering :: "(string + HandshakeResponse) \<Rightarrow> Core" where
  "core_answering res = \<lparr>respond = (\<lambda>req. res), received = []\<rparr>"

section \<open>Properties\<close>

subsection \<open>Helper lemmas\<close>

lemma Split_not_Nil: "Split s sep \<noteq> []"
  by (induction s) (auto split: list.splits)

lemma hd_Split: "hd (Split s sep) = takeWhile (\<lambda>c. c \<noteq> sep) s"
proof (induction s)
  case Nil
  show ?case by simp
next
  case (Cons c cs)
  show ?case
  proof (cases "c = sep")
    case True
    then show ?thesis by simp
  next
    case False
    obtain w ws where sp: "Split cs sep = w # ws"
      using Split_not_Nil [of cs sep] by (cases "Split cs sep") auto
    with Cons False show ?thesis by simp
  qed
qed

lemma isAPIVersionCompatible_iff:
  "isAPIVersionCompatible plugin core \<longleftrightarrow> before_first_dot plugin = before_first_dot core"
  by (simp add: isAPIVersionCompatible_def before_first_dot_def hd_Split)

lemma allowed_loop_iff: "allowed_loop ps pluginId \<longleftrightarrow> pluginId \<in> set ps"
  by (induction ps) auto

lemma find_append_new:
  "ident \<notin> set (map i_ID rows) \<Longrightarrow> i_ID inst = ident \<Longrightarrow>
   find (\<lambda>row. i_ID row = ident) (rows @ [inst]) = Some inst"
  by (induction rows) auto

lemma find_ID: "find (\<lambda>row. i_ID row = ident) rows = Some inst \<Longrightarrow> i_ID inst = ident"
  by (auto simp: find_Some_iff)

lemma find_mem: "find (\<lambda>row. i_ID row = ident) rows = Some inst \<Longrightarrow> ident \<in> set (map i_ID rows)"
  by (induction rows) (auto split: if_splits)

lemma find_save_row:
  assumes "ident \<in> set (map i_ID rows)" and "i_ID inst = ident"
  shows "find (\<lambda>row. i_ID row = ident) (save_row inst rows) = Some inst"
proof -
  have "find (\<lambda>row. i_ID row = ident) (map (\<lambda>row. if i_ID row = ident then inst else row) rows)
        = Some inst"
    using assms by (induction rows) auto
  with assms show ?thesis
    by (simp add: save_row_def)
qed

lemma stored_instance_ID: "stored_instance r ident = Some inst \<Longrightarrow> i_ID inst = ident"
  unfolding stored_instance_def by (rule find_ID)

lemma stored_after_update:
  assumes "\<not> update_fails g inst" and "stored_instance r (i_ID inst) = Some old"
  shows "stored_instance (snd (UpdateInstance g inst r)) (i_ID inst) = Some inst"
proof -
  from assms(2) have "i_ID inst \<in> set (map i_ID (plugin_instances r))"
    unfolding stored_instance_def by (rule find_mem)
  then have "find (\<lambda>row. i_ID row = i_ID inst) (save_row inst (plugin_instances r)) = Some inst"
    by (rule find_save_row) simp
  with assms(1) show ?thesis
    by (simp add: UpdateInstance_def stored_instance_def)
qed

lemma stored_after_failed_update:
  "update_fails g inst \<Longrightarrow>
   plugin_instances (snd (UpdateInstance g inst r)) = plugin_instances r
   \<and> stored_instance (snd (UpdateInstance g inst r)) ident = stored_instance r ident"
  by (simp add: UpdateInstance_def stored_instance_def)

lemma journal_UpdateInstance:
  "journal (snd (UpdateInstance g inst r)) =
     journal r @ [\<lparr>at_call = UpdateInstanceCall inst, at_definitions = plugin_definitions r,
                   at_error = (if update_fails g inst then Some ''database error'' else None)\<rparr>]"
  by (simp add: UpdateInstance_def attempted_def)

lemma GetInstance_Inr:
  "\<not> get_fails g ident \<Longrightarrow> stored_instance r ident = Some inst \<Longrightarrow>
   GetInstance g r ident = Inr inst"
  by (simp add: GetInstance_def)

lemma GetInstance_Inl:
  "get_fails g ident \<or> stored_instance r ident = None \<Longrightarrow>
   GetInstance g r ident =
     Inl (if get_fails g ident then ''database error'' else ''record not found'')"
  by (auto simp: GetInstance_def)

lemma Heartbeat_valid:
  assumes "\<not> get_fails g (bq_SessionId req)"
    and "stored_instance (repo m) (bq_SessionId req) = Some inst"
    and "i_AuthToken inst = bq_AuthToken req"
  shows "Heartbeat g now m req =
        ((\<lparr>br_Ok = True, br_Message = ''ok''\<rparr>, None),
         m\<lparr>repo := snd (UpdateInstance g
                     (inst\<lparr>i_LastHeartbeat := Some now, i_Status := PluginStatusRunning\<rparr>)
                     (repo m))\<rparr>)"
  by (simp add: Heartbeat_def GetInstance_Inr [OF assms(1,2)] assms(3) case_prod_beta)

lemma Heartbeat_stored:
  assumes "\<not> get_fails g (bq_SessionId req)"
    and "stored_instance (repo m) (bq_SessionId req) = Some inst"
    and "i_AuthToken inst = bq_AuthToken req"
    and "\<not> update_fails g (inst\<lparr>i_LastHeartbeat := Some now, i_Status := PluginStatusRunning\<rparr>)"
  shows "stored_instance (repo (snd (Heartbeat g now m req))) (bq_SessionId req)
         = Some (inst\<lparr>i_LastHeartbeat := Some now, i_Status := PluginStatusRunning\<rparr>)"
proof -
  let ?inst' = "inst\<lparr>i_LastHeartbeat := Some now, i_Status := PluginStatusRunning\<rparr>"
  from assms(2) have id: "i_ID ?inst' = bq_SessionId req"
    by (simp add: stored_instance_ID)
  from assms(2) id have "stored_instance (repo m) (i_ID ?inst') = Some inst" by simp
  from stored_after_update [OF assms(4) this] id
  have "stored_instance (snd (UpdateInstance g ?inst' (repo m))) (bq_SessionId req) = Some ?inst'"
    by simp
  then show ?thesis
    by (simp add: Heartbeat_valid [OF assms(1,2,3)])
qed

lemma Heartbeat_not_stored:
  assumes "\<not> get_fails g (bq_SessionId req)"
    and "stored_instance (repo m) (bq_SessionId req) = Some inst"
    and "i_AuthToken inst = bq_AuthToken req"
    and "update_fails g (inst\<lparr>i_LastHeartbeat := Some now, i_Status := PluginStatusRunning\<rparr>)"
  shows "plugin_instances (repo (snd (Heartbeat g now m req))) = plugin_instances (repo m)
       \<and> stored_instance (repo (snd (Heartbeat g now m req))) (bq_SessionId req) = Some inst"
  using stored_after_failed_update [OF assms(4), of "repo m" "bq_SessionId req"] assms(2)
  by (simp add: Heartbeat_valid [OF assms(1,2,3)])

lemma SetInstanceEnabled_off:
  assumes "\<not> get_fails g sid" and "stored_instance (repo m) sid = Some inst"
  shows "repo (snd (SetInstanceEnabled g m sid False))
         = snd (UpdateInstance g (inst\<lparr>i_Enabled := False, i_Status := PluginStatusStopped\<rparr>)
                  (repo m))"
  by (simp add: SetInstanceEnabled_def GetInstance_Inr [OF assms] Let_def case_prod_beta)

lemma broadcast_Subscribe: "broadcast (Subscribe ident eb) = broadcast eb"
  by (simp add: Subscribe_def)

lemma broadcast_Unsubscribe: "broadcast (Unsubscribe ident eb) = broadcast eb"
  by (simp add: Unsubscribe_def split: option.splits)

lemma broadcast_SendDirect: "broadcast (snd (SendDirect ident event eb)) = broadcast eb"
  by (simp add: SendDirect_def split: option.splits)

lemma broadcast_SendBroadcast: "broadcast (SendBroadcast event eb) = broadcast eb"
  by (simp add: SendBroadcast_def)

lemma broadcast_EventBus_Stop: "broadcast (EventBus_Stop eb) = broadcast eb"
  by (simp add: EventBus_Stop_def)

text \<open>No operation of the bus writes to the relay channel: it stays as it was made.\<close>

lemma relay_never_fed: "reachable eb \<Longrightarrow> broadcast eb = make_chan 100"
  by (induction rule: reachable.induct)
     (simp_all add: NewEventBus_def broadcast_Subscribe broadcast_Unsubscribe
        broadcast_SendDirect broadcast_SendBroadcast broadcast_EventBus_Stop)

text \<open>Sends that fit in the buffer all succeed and queue up in order.\<close>

lemma SendDirect_each_room:
  "subs eb ident = Some ch \<Longrightarrow> length (buf ch) + length events \<le> cap ch \<Longrightarrow>
   SendDirect_each ident events eb =
     (replicate (length events) None,
      eb\<lparr>subs := (subs eb)(ident \<mapsto> ch\<lparr>buf := buf ch @ events\<rparr>)\<rparr>)"
proof (induction events arbitrary: eb ch)
  case Nil
  then show ?case by (simp add: map_upd_triv)
next
  case (Cons event events)
  let ?ch1 = "ch\<lparr>buf := buf ch @ [event]\<rparr>"
  let ?eb1 = "eb\<lparr>subs := (subs eb)(ident \<mapsto> ?ch1)\<rparr>"
  from Cons.prems have one: "SendDirect ident event eb = (None, ?eb1)"
    by (simp add: SendDirect_def select_send_def)
  have "subs ?eb1 ident = Some ?ch1" by simp
  moreover from Cons.prems have "length (buf ?ch1) + length events \<le> cap ?ch1" by simp
  ultimately have rest: "SendDirect_each ident events ?eb1 =
     (replicate (length events) None,
      ?eb1\<lparr>subs := (subs ?eb1)(ident \<mapsto> ?ch1\<lparr>buf := buf ?ch1 @ events\<rparr>)\<rparr>)"
    by (rule Cons.IH)
  have fin: "?eb1\<lparr>subs := (subs ?eb1)(ident \<mapsto> ?ch1\<lparr>buf := buf ?ch1 @ events\<rparr>)\<rparr>
     = eb\<lparr>subs := (subs eb)(ident \<mapsto> ch\<lparr>buf := buf ch @ event # events\<rparr>)\<rparr>"
    by simp
  have "SendDirect_each ident (event # events) eb =
     (None # replicate (length events) None,
      ?eb1\<lparr>subs := (subs ?eb1)(ident \<mapsto> ?ch1\<lparr>buf := buf ?ch1 @ events\<rparr>)\<rparr>)"
    by (simp only: SendDirect_each.simps one rest Let_def split_conv)
  then show ?case by (simp only: fin length_Cons replicate_Suc)
qed


lemma i_ID_swept: "i_ID (swept g cutoff inst) = i_ID inst"
  by (simp add: swept_def)

lemma save_row_present:
  assumes "distinct (map i_ID rows)" and "x \<in> set rows" and "i_ID x' = i_ID x"
  shows "save_row x' rows = map (\<lambda>row. if row = x then x' else row) rows"
proof -
  from assms(1) have inj: "inj_on i_ID (set rows)" by (simp add: distinct_map)
  have "(if i_ID row = i_ID x' then x' else row) = (if row = x then x' else row)"
    if "row \<in> set rows" for row
    using that assms(2,3) inj by (auto dest: inj_onD)
  then have "map (\<lambda>row. if i_ID row = i_ID x' then x' else row) rows
           = map (\<lambda>row. if row = x then x' else row) rows"
    by (intro map_cong) simp_all
  moreover from assms(2,3) have "i_ID x' \<in> set (map i_ID rows)" by force
  ultimately show ?thesis by (simp add: save_row_def)
qed

lemma sweep_rows:
  assumes "distinct (map i_ID (plugin_instances r))"
    and "set xs \<subseteq> set (plugin_instances r)" and "distinct xs"
  shows "plugin_instances (sweep g cutoff xs r)
         = map (\<lambda>row. if row \<in> set xs then swept g cutoff row else row) (plugin_instances r)"
  using assms
proof (induction xs arbitrary: r)
  case Nil
  then show ?case by simp
next
  case (Cons x rest)
  let ?rows = "plugin_instances r"
  let ?x' = "x\<lparr>i_Status := PluginStatusUnhealthy\<rparr>"
  let ?r1 = "snd (UpdateInstance g ?x' r)"
  from Cons.prems have xin: "x \<in> set ?rows" and sub: "set rest \<subseteq> set ?rows"
    and xnot: "x \<notin> set rest" and drest: "distinct rest" by auto
  from Cons.prems(1) have inj: "inj_on i_ID (set ?rows)" by (simp add: distinct_map)
  consider (skip) "\<not> (i_Status x = PluginStatusRunning \<and> stale cutoff x)"
    | (refused) "i_Status x = PluginStatusRunning" "stale cutoff x" "update_fails g ?x'"
    | (taken) "i_Status x = PluginStatusRunning" "stale cutoff x" "\<not> update_fails g ?x'"
    by blast
  then show ?case
  proof cases
    case skip
    then have step: "sweep g cutoff (x # rest) r = sweep g cutoff rest r"
      by auto
    from skip have same: "swept g cutoff x = x" by (auto simp: swept_def)
    have "plugin_instances (sweep g cutoff rest r)
          = map (\<lambda>row. if row \<in> set rest then swept g cutoff row else row) ?rows"
      using Cons.IH [OF Cons.prems(1) sub drest] .
    also have "\<dots> = map (\<lambda>row. if row \<in> set (x # rest) then swept g cutoff row else row) ?rows"
      using same xnot by (intro map_cong) auto
    finally show ?thesis using step by simp
  next
    case refused
    then have step: "sweep g cutoff (x # rest) r = sweep g cutoff rest ?r1"
      by simp
    from refused have rows1: "plugin_instances ?r1 = ?rows"
      by (simp add: UpdateInstance_def)
    from refused have same: "swept g cutoff x = x" by (simp add: swept_def)
    have "plugin_instances (sweep g cutoff rest ?r1)
          = map (\<lambda>row. if row \<in> set rest then swept g cutoff row else row)
              (plugin_instances ?r1)"
      by (rule Cons.IH) (simp_all only: rows1 Cons.prems(1) sub drest)
    also have "\<dots> = map (\<lambda>row. if row \<in> set (x # rest) then swept g cutoff row else row) ?rows"
      unfolding rows1 using same xnot by (intro map_cong) auto
    finally show ?thesis using step by simp
  next
    case taken
    then have step: "sweep g cutoff (x # rest) r = sweep g cutoff rest ?r1"
      by simp
    from taken have rows1: "plugin_instances ?r1 = save_row ?x' ?rows"
      by (simp add: UpdateInstance_def)
    from taken have dem: "swept g cutoff x = ?x'" by (simp add: swept_def)
    have saved: "save_row ?x' ?rows = map (\<lambda>row. if row = x then ?x' else row) ?rows"
      by (rule save_row_present [OF Cons.prems(1) xin]) simp
    have ids: "map i_ID (save_row ?x' ?rows) = map i_ID ?rows"
      unfolding saved by (induction ?rows) auto
    have d': "distinct (map i_ID (plugin_instances ?r1))"
      using Cons.prems(1) ids by (simp add: rows1)
    have sub': "set rest \<subseteq> set (plugin_instances ?r1)"
    proof
      fix y assume y: "y \<in> set rest"
      with sub xnot have "y \<in> set ?rows" "y \<noteq> x" by auto
      then have "y \<in> (\<lambda>row. if row = x then ?x' else row) ` set ?rows"
        by (intro image_eqI [where x = y]) auto
      then show "y \<in> set (plugin_instances ?r1)" by (simp add: rows1 saved)
    qed
    have x'not: "?x' \<notin> set rest"
    proof
      assume "?x' \<in> set rest"
      with sub have "?x' \<in> set ?rows" by auto
      with xin inj have "?x' = x" by (intro inj_onD [OF inj]) simp_all
      with \<open>?x' \<in> set rest\<close> xnot show False by simp
    qed
    have "plugin_instances (sweep g cutoff rest ?r1)
          = map (\<lambda>row. if row \<in> set rest then swept g cutoff row else row)
              (plugin_instances ?r1)"
      using Cons.IH [OF d' sub' drest] .
    also have "\<dots> = map ((\<lambda>row. if row \<in> set rest then swept g cutoff row else row)
                         \<circ> (\<lambda>row. if row = x then ?x' else row)) ?rows"
      by (simp add: rows1 saved)
    also have "\<dots> = map (\<lambda>row. if row \<in> set (x # rest) then swept g cutoff row else row) ?rows"
      using dem x'not by (intro map_cong) auto
    finally show ?thesis using step by simp
  qed
qed

lemma find_map_same_ID:
  assumes "distinct (map i_ID rows)" and "inst \<in> set rows" and "\<And>row. i_ID (f row) = i_ID row"
  shows "find (\<lambda>row. i_ID row = i_ID inst) (map f rows) = Some (f inst)"
  using assms(1,2)
proof (induction rows)
  case Nil
  then show ?case by simp
next
  case (Cons a rows)
  show ?case
  proof (cases "a = inst")
    case True
    then show ?thesis by (simp add: assms(3))
  next
    case False
    with Cons.prems have "inst \<in> set rows" "i_ID a \<noteq> i_ID inst" by force+
    with Cons show ?thesis by (simp add: assms(3))
  qed
qed


lemma checkHeartbeats_rows:
  assumes "distinct (map i_ID (plugin_instances (repo m)))" and "\<not> list_fails g"
  shows "plugin_instances (repo (checkHeartbeats parse g now m))
         = map (swept g (now + sint (- fst (parse (effective_timeout (config m))))))
             (plugin_instances (repo m))"
proof -
  from assms(1) have d: "distinct (plugin_instances (repo m))"
    by (simp add: distinct_map)
  have "plugin_instances (sweep g cutoff (plugin_instances (repo m)) (repo m))
        = map (swept g cutoff) (plugin_instances (repo m))" for cutoff
    using sweep_rows [OF assms(1) subset_refl d, of g cutoff]
    by (simp cong: map_cong)
  with assms(2) show ?thesis
    by (simp add: checkHeartbeats_def ListInstances_def Let_def)
qed

lemma checkHeartbeats_get:
  assumes "distinct (map i_ID (plugin_instances (repo m)))" and "\<not> list_fails g"
    and "inst \<in> set (plugin_instances (repo m))"
  shows "stored_instance (repo (checkHeartbeats parse g now m)) (i_ID inst)
         = Some (swept g (now + sint (- fst (parse (effective_timeout (config m))))) inst)"
  unfolding stored_instance_def checkHeartbeats_rows [OF assms(1,2)]
  by (rule find_map_same_ID [OF assms(1) assms(3)]) (rule i_ID_swept)


subsection \<open>Handshake: the Definition behind a new Instance\<close>

text \<open>
  C1, as the code has it. An accepted handshake makes two writes, in this order: the
  Definition upsert, then the creation of the Instance, which is stored under the issued
  session id with the plugin id as its \<open>definition_id\<close>. If the upsert succeeded, the
  Definition table on which the Instance was created holds a Definition under that id:
  the request's definition for a new id, and for a known id the stored row with the
  request's non-zero fields written over it. If the upsert reported a failure, the handler
  went on all the same and the Instance was created on the Definition table as it was
  before the handshake: the id resolves only if it did already.
\<close>

theorem handshake_upserts_before_create:
  assumes "Handshake g sid tok now m req = ((resp, err), m')" and "hr_Accepted resp"
  shows "journal (repo m') =
           journal (repo m) @
             [\<lparr>at_call = UpsertDefinitionCall (new_definition req),
               at_definitions = plugin_definitions (repo m),
               at_error = (if upsert_fails g (new_definition req)
                           then Some ''database error'' else None)\<rparr>,
              \<lparr>at_call = CreateInstanceCall (new_instance sid tok now req),
               at_definitions = plugin_definitions (repo m'),
               at_error = None\<rparr>]
       \<and> stored_instance (repo m') sid = Some (new_instance sid tok now req)
       \<and> i_DefinitionID (new_instance sid tok now req) = hq_PluginId req
       \<and> (\<not> upsert_fails g (new_definition req) \<longrightarrow>
            at_definitions (last (journal (repo m'))) (hq_PluginId req)
              = Some (upserted (new_definition req)
                        (plugin_definitions (repo m) (hq_PluginId req))))
       \<and> (upsert_fails g (new_definition req) \<longrightarrow>
            at_definitions (last (journal (repo m'))) = plugin_definitions (repo m))"
proof -
  let ?d = "new_definition req"
  let ?i = "new_instance sid tok now req"
  let ?r1 = "snd (UpsertDefinition g ?d (repo m))"
  from assms have ok: "fst (CreateInstance g ?i ?r1) = None"
    and m': "m' = m\<lparr>repo := snd (CreateInstance g ?i ?r1),
                    eventBus := SendBroadcast (connected_event req) (eventBus m)\<rparr>"
    by (auto simp: Handshake_def rejected_def Let_def case_prod_beta split: if_splits)
  from ok have fresh: "sid \<notin> set (map i_ID (plugin_instances ?r1))"
    and nofail: "\<not> create_fails g ?i"
    by (auto simp: CreateInstance_def new_instance_def split: if_splits)
  have enabled: "?i\<lparr>i_Enabled := True\<rparr> = ?i"
    by (simp add: new_instance_def)
  from fresh nofail have r2: "snd (CreateInstance g ?i ?r1) =
      ?r1\<lparr>plugin_instances := plugin_instances ?r1 @ [?i],
          journal := attempted (CreateInstanceCall ?i) None ?r1\<rparr>"
    by (simp add: CreateInstance_def enabled) (simp add: new_instance_def)
  have defs': "plugin_definitions (repo m') = plugin_definitions ?r1"
    by (simp add: m' r2)
  have j1: "journal ?r1 = journal (repo m) @
             [\<lparr>at_call = UpsertDefinitionCall ?d, at_definitions = plugin_definitions (repo m),
               at_error = (if upsert_fails g ?d then Some ''database error'' else None)\<rparr>]"
    by (simp add: UpsertDefinition_def attempted_def)
  have a: "journal (repo m') =
           journal (repo m) @
             [\<lparr>at_call = UpsertDefinitionCall ?d, at_definitions = plugin_definitions (repo m),
               at_error = (if upsert_fails g ?d then Some ''database error'' else None)\<rparr>,
              \<lparr>at_call = CreateInstanceCall ?i, at_definitions = plugin_definitions (repo m'),
               at_error = None\<rparr>]"
    unfolding defs' by (simp add: m' r2 attempted_def j1)
  have "i_ID ?i = sid" by (simp add: new_instance_def)
  with fresh have b: "stored_instance (repo m') sid = Some ?i"
    by (simp add: m' r2 stored_instance_def find_append_new)
  have c: "i_DefinitionID ?i = hq_PluginId req"
    by (simp add: new_instance_def)
  have lastj: "at_definitions (last (journal (repo m'))) = plugin_definitions ?r1"
    unfolding a by (simp add: defs')
  have d: "\<not> upsert_fails g ?d \<longrightarrow>
            at_definitions (last (journal (repo m'))) (hq_PluginId req)
              = Some (upserted ?d (plugin_definitions (repo m) (hq_PluginId req)))"
    unfolding lastj by (simp add: UpsertDefinition_def new_definition_def)
  have e: "upsert_fails g ?d \<longrightarrow>
            at_definitions (last (journal (repo m'))) = plugin_definitions (repo m)"
    unfolding lastj by (simp add: UpsertDefinition_def)
  from a b c d e show ?thesis by (intro conjI)
qed

text \<open>
  The theorem on a first handshake against an empty gateway, and on a handshake with an
  empty version for a plugin id the gateway knows: the stored version is kept.
\<close>

theorem handshake_upserts_before_create_witness:
  "hr_Accepted (accepted ''inst-0'' ''tok-0'')
   \<and> \<not> upsert_fails no_faults (new_definition (req_of ''webdav'' ''1.0'' []))
   \<and> at_definitions (last (journal (repo (snd
        (Handshake no_faults ''inst-0'' ''tok-0'' 0 (NewManager cfg_open empty_repo)
           (req_of ''webdav'' ''1.0'' [])))))) ''webdav''
      = Some (new_definition (req_of ''webdav'' ''1.0'' []))
   \<and> \<not> upsert_fails no_faults (new_definition ((req_of ''webdav'' ''1.0'' [])\<lparr>hq_Version := []\<rparr>))
   \<and> at_definitions (last (journal (repo (snd
        (Handshake no_faults ''inst-0'' ''tok-0'' 0 (NewManager cfg_open known_repo)
           ((req_of ''webdav'' ''1.0'' [])\<lparr>hq_Version := []\<rparr>)))))) ''webdav''
      = Some \<lparr>d_ID = ''webdav'', d_Version = ''0.0.9'', d_APIVersion = ''1.0'',
              d_DependsOn = Some [], d_Capabilities = Some [], d_Enabled = True,
              d_Metadata = None\<rparr>"
proof -
  let ?req = "req_of ''webdav'' ''1.0'' []"
  let ?rq = "(req_of ''webdav'' ''1.0'' [])\<lparr>hq_Version := []\<rparr>"
  let ?m = "NewManager cfg_open empty_repo"
  let ?k = "NewManager cfg_open known_repo"
  have run: "Handshake no_faults ''inst-0'' ''tok-0'' 0 ?m ?req
             = ((accepted ''inst-0'' ''tok-0'', None),
                snd (Handshake no_faults ''inst-0'' ''tok-0'' 0 ?m ?req))"
    by (simp add: Handshake_def NewManager_def cfg_open_def req_of_def
          isAPIVersionCompatible_def no_faults_def empty_repo_def UpsertDefinition_def
          CreateInstance_def new_definition_def new_instance_def)
  have run0: "Handshake no_faults ''inst-0'' ''tok-0'' 0 ?k ?rq
             = ((accepted ''inst-0'' ''tok-0'', None),
                snd (Handshake no_faults ''inst-0'' ''tok-0'' 0 ?k ?rq))"
    by (simp add: Handshake_def NewManager_def cfg_open_def req_of_def
          isAPIVersionCompatible_def no_faults_def known_repo_def UpsertDefinition_def
          CreateInstance_def new_definition_def new_instance_def)
  have acc: "hr_Accepted (accepted ''inst-0'' ''tok-0'')"
    by (simp add: accepted_def)
  have ok: "\<not> upsert_fails no_faults (new_definition ?req)"
    and ok0: "\<not> upsert_fails no_faults (new_definition ?rq)"
    by (simp_all add: no_faults_def)
  from handshake_upserts_before_create [OF run acc, THEN conjunct2, THEN conjunct2,
         THEN conjunct2, THEN conjunct1, THEN mp, OF ok]
  have first: "at_definitions (last (journal (repo (snd
        (Handshake no_faults ''inst-0'' ''tok-0'' 0 ?m ?req))))) ''webdav''
      = Some (new_definition ?req)"
    by (simp add: req_of_def NewManager_def empty_repo_def upserted_def new_definition_def)
  from handshake_upserts_before_create [OF run0 acc, THEN conjunct2, THEN conjunct2,
         THEN conjunct2, THEN conjunct1, THEN mp, OF ok0]
  have again: "at_definitions (last (journal (repo (snd
        (Handshake no_faults ''inst-0'' ''tok-0'' 0 ?k ?rq))))) ''webdav''
      = Some \<lparr>d_ID = ''webdav'', d_Version = ''0.0.9'', d_APIVersion = ''1.0'',
              d_DependsOn = Some [], d_Capabilities = Some [], d_Enabled = True,
              d_Metadata = None\<rparr>"
    by (simp add: req_of_def NewManager_def known_repo_def upserted_def assign_nonzero_def
          new_definition_def)
  from acc ok first ok0 again show ?thesis by (intro conjI)
qed

text \<open>
  C1 as stated fails when the upsert reports a failure: with an empty gateway whose
  Definition upsert fails, the handshake is accepted, the Instance is stored with
  \<open>definition_id = webdav\<close>, and no Definition \<open>webdav\<close> exists, neither on the table
  the Instance was created on nor afterwards.
\<close>

theorem handshake_dangling_definition_counterexample:
  "hr_Accepted (fst (fst (Handshake upsert_down ''inst-0'' ''tok-0'' 0
        (NewManager cfg_open empty_repo) (req_of ''webdav'' ''1.0'' []))))
   \<and> map_option i_DefinitionID
       (stored_instance (repo (snd (Handshake upsert_down ''inst-0'' ''tok-0'' 0
          (NewManager cfg_open empty_repo) (req_of ''webdav'' ''1.0'' [])))) ''inst-0'')
      = Some ''webdav''
   \<and> at_call (last (journal (repo (snd (Handshake upsert_down ''inst-0'' ''tok-0'' 0
          (NewManager cfg_open empty_repo) (req_of ''webdav'' ''1.0'' []))))))
      = CreateInstanceCall (new_instance ''inst-0'' ''tok-0'' 0 (req_of ''webdav'' ''1.0'' []))
   \<and> at_definitions (last (journal (repo (snd (Handshake upsert_down ''inst-0'' ''tok-0'' 0
          (NewManager cfg_open empty_repo) (req_of ''webdav'' ''1.0'' [])))))) ''webdav'' = None
   \<and> plugin_definitions (repo (snd (Handshake upsert_down ''inst-0'' ''tok-0'' 0
          (NewManager cfg_open empty_repo) (req_of ''webdav'' ''1.0'' [])))) ''webdav'' = None"
  by (simp add: Handshake_def NewManager_def cfg_open_def req_of_def upsert_down_def
        isAPIVersionCompatible_def no_faults_def empty_repo_def UpsertDefinition_def
        CreateInstance_def new_definition_def new_instance_def stored_instance_def
        attempted_def accepted_def)

subsection \<open>Handshake: the allow-list\<close>

text \<open>
  C2, as the code has it. The allow-list is read only when security is enabled, after the
  token check. With security enabled and a matching token, both handshake handlers
  reject with \<open>plugin not allowed\<close> (PermissionDenied on gRPC) exactly when the plugin id
  is not in the list, so an empty list rejects every plugin id. With security disabled
  neither handler ever answers \<open>plugin not allowed\<close>, whatever the list holds.
\<close>

theorem allow_list_read_under_security_only:
  "(s_Enabled (config m) \<and> hq_Token req = s_PluginToken (config m) \<longrightarrow>
      (fst (Handshake g sid tok now m req)
          = (rejected ''plugin not allowed'', Some (PermissionDenied, ''plugin not allowed''))
        \<longleftrightarrow> hq_PluginId req \<notin> set (s_AllowedPlugins (config m)))
    \<and> (fst (HandshakeHTTP g sid tok now m req) = (rejected ''plugin not allowed'', None)
        \<longleftrightarrow> hq_PluginId req \<notin> set (s_AllowedPlugins (config m))))
   \<and> (\<not> s_Enabled (config m) \<longrightarrow>
        hr_Error (fst (fst (Handshake g sid tok now m req))) \<noteq> ''plugin not allowed''
      \<and> hr_Error (fst (fst (HandshakeHTTP g sid tok now m req))) \<noteq> ''plugin not allowed'')"
  by (auto simp: Handshake_def HandshakeHTTP_def rejected_def accepted_def allowed_loop_iff
        Let_def split: prod.splits)

text \<open>
  The theorem at work: a listed configuration rejects an unlisted id that presents the
  right token, and an open configuration does not answer \<open>plugin not allowed\<close>.
\<close>

theorem allow_list_read_under_security_only_witness:
  "s_Enabled (config (NewManager cfg_listed empty_repo))
   \<and> hq_Token (req_of ''mailer'' ''1.0'' ''s3cret'')
       = s_PluginToken (config (NewManager cfg_listed empty_repo))
   \<and> ''mailer'' \<notin> set (s_AllowedPlugins (config (NewManager cfg_listed empty_repo)))
   \<and> fst (Handshake no_faults ''inst-0'' ''tok-0'' 0 (NewManager cfg_listed empty_repo)
            (req_of ''mailer'' ''1.0'' ''s3cret''))
       = (rejected ''plugin not allowed'', Some (PermissionDenied, ''plugin not allowed''))
   \<and> \<not> s_Enabled (config (NewManager cfg_open empty_repo))
   \<and> hr_Error (fst (fst (Handshake no_faults ''inst-0'' ''tok-0'' 0
                 (NewManager cfg_open empty_repo) (req_of ''mailer'' ''1.0'' []))))
       \<noteq> ''plugin not allowed''"
  using allow_list_read_under_security_only
          [of "NewManager cfg_listed empty_repo" "req_of ''mailer'' ''1.0'' ''s3cret''"
              no_faults "''inst-0''" "''tok-0''" 0]
        allow_list_read_under_security_only
          [of "NewManager cfg_open empty_repo" "req_of ''mailer'' ''1.0'' []"
              no_faults "''inst-0''" "''tok-0''" 0]
  by (simp add: NewManager_def cfg_listed_def cfg_open_def req_of_def)

text \<open>
  C2 as stated fails in both directions. Security enabled, right token, empty allow-list:
  the handshake is rejected with \<open>plugin not allowed\<close>. Security disabled, allow-list
  \<open>[backup]\<close>, plugin id \<open>webdav\<close>: the handshake is accepted.
\<close>

theorem allow_list_counterexample:
  "s_AllowedPlugins cfg_secure = []
   \<and> fst (Handshake no_faults ''inst-0'' ''tok-0'' 0 (NewManager cfg_secure empty_repo)
            (req_of ''webdav'' ''1.0'' ''s3cret''))
       = (rejected ''plugin not allowed'', Some (PermissionDenied, ''plugin not allowed''))
   \<and> s_AllowedPlugins cfg_open = [''backup'']
   \<and> fst (Handshake no_faults ''inst-0'' ''tok-0'' 0 (NewManager cfg_open empty_repo)
            (req_of ''webdav'' ''1.0'' []))
       = (accepted ''inst-0'' ''tok-0'', None)"
  by (simp add: Handshake_def NewManager_def cfg_secure_def cfg_open_def req_of_def
        isAPIVersionCompatible_def no_faults_def empty_repo_def UpsertDefinition_def
        CreateInstance_def new_definition_def new_instance_def)

subsection \<open>Broadcasts and the relay queue\<close>

text \<open>
  C3, as the code has it. \<^verbatim>\<open>SendBroadcast\<close> leaves the relay queue untouched and
  itself performs the fan-out: every subscribed queue with room gets the event appended,
  a full one is left as it is. An accepted handshake makes exactly this call with the
  \<open>plugin_connected\<close> event, and the manager's stop makes it with the \<open>shutdown\<close> event
  before stopping the bus. In every reachable state of the bus the relay queue (capacity
  100) is empty, so the background worker has nothing to take and fans out nothing.
\<close>

theorem broadcast_fans_out_in_caller:
  "broadcast (SendBroadcast event eb) = broadcast eb
   \<and> subs (SendBroadcast event eb) k =
       map_option (\<lambda>ch. if length (buf ch) < cap ch then ch\<lparr>buf := buf ch @ [event]\<rparr> else ch)
         (subs eb k)
   \<and> (hr_Accepted (fst (fst (Handshake g sid tok now m req))) \<longrightarrow>
        eventBus (snd (Handshake g sid tok now m req))
          = SendBroadcast (connected_event req) (eventBus m))
   \<and> eventBus (PluginManager_Stop m) =
        EventBus_Stop (SendBroadcast \<lparr>e_SessionId = [], e_Type = EventTypeShutdown,
                           e_Data = ''system shutting down''\<rparr> (eventBus m))
   \<and> (reachable eb \<longrightarrow>
        broadcast eb = make_chan 100 \<and> buf (broadcast eb) = [] \<and> relay_worker_step eb = None)"
proof -
  have a: "broadcast (SendBroadcast event eb) = broadcast eb"
    by (rule broadcast_SendBroadcast)
  have b: "subs (SendBroadcast event eb) k =
       map_option (\<lambda>ch. if length (buf ch) < cap ch then ch\<lparr>buf := buf ch @ [event]\<rparr> else ch)
         (subs eb k)"
    by (simp add: SendBroadcast_def select_send_def split: option.splits)
  have c: "hr_Accepted (fst (fst (Handshake g sid tok now m req))) \<longrightarrow>
        eventBus (snd (Handshake g sid tok now m req))
          = SendBroadcast (connected_event req) (eventBus m)"
    by (simp add: Handshake_def rejected_def Let_def split: prod.splits)
  have d: "eventBus (PluginManager_Stop m) =
        EventBus_Stop (SendBroadcast \<lparr>e_SessionId = [], e_Type = EventTypeShutdown,
                           e_Data = ''system shutting down''\<rparr> (eventBus m))"
    by (simp add: PluginManager_Stop_def)
  have e: "reachable eb \<longrightarrow>
        broadcast eb = make_chan 100 \<and> buf (broadcast eb) = [] \<and> relay_worker_step eb = None"
    by (simp add: relay_never_fed relay_worker_step_def make_chan_def)
  from a b c d e show ?thesis by blast
qed

text \<open>The theorem on an accepted handshake over a bus with one subscriber.\<close>

theorem broadcast_fans_out_in_caller_witness:
  "hr_Accepted (fst (fst (Handshake no_faults ''inst-0'' ''tok-0'' 0
       ((NewManager cfg_open empty_repo)\<lparr>eventBus := Subscribe ''inst-9'' NewEventBus\<rparr>)
       (req_of ''webdav'' ''1.0'' []))))
   \<and> reachable (Subscribe ''inst-9'' NewEventBus)
   \<and> eventBus (snd (Handshake no_faults ''inst-0'' ''tok-0'' 0
       ((NewManager cfg_open empty_repo)\<lparr>eventBus := Subscribe ''inst-9'' NewEventBus\<rparr>)
       (req_of ''webdav'' ''1.0'' [])))
      = SendBroadcast (connected_event (req_of ''webdav'' ''1.0'' []))
          (Subscribe ''inst-9'' NewEventBus)
   \<and> relay_worker_step (Subscribe ''inst-9'' NewEventBus) = None"
proof -
  have acc: "hr_Accepted (fst (fst (Handshake no_faults ''inst-0'' ''tok-0'' 0
       ((NewManager cfg_open empty_repo)\<lparr>eventBus := Subscribe ''inst-9'' NewEventBus\<rparr>)
       (req_of ''webdav'' ''1.0'' []))))"
    by (simp add: Handshake_def NewManager_def cfg_open_def req_of_def
          isAPIVersionCompatible_def no_faults_def empty_repo_def UpsertDefinition_def
          CreateInstance_def new_definition_def new_instance_def accepted_def)
  have rch: "reachable (Subscribe ''inst-9'' NewEventBus)"
    by (intro reachable.subscribe reachable.new)
  from acc rch
    broadcast_fans_out_in_caller
      [of ping "Subscribe ''inst-9'' NewEventBus" "''inst-9''" no_faults "''inst-0''"
          "''tok-0''" 0
          "(NewManager cfg_open empty_repo)\<lparr>eventBus := Subscribe ''inst-9'' NewEventBus\<rparr>"
          "req_of ''webdav'' ''1.0'' []"]
  show ?thesis by simp
qed

text \<open>
  C3 as stated fails: after an accepted handshake over a bus with the subscriber
  \<open>inst-9\<close>, the relay queue is empty, and the subscriber's queue already holds the
  \<open>plugin_connected\<close> event, with no step of the background worker.
\<close>

theorem broadcast_skips_relay_counterexample:
  "hr_Accepted (fst (fst (Handshake no_faults ''inst-0'' ''tok-0'' 0
       ((NewManager cfg_open empty_repo)\<lparr>eventBus := Subscribe ''inst-9'' NewEventBus\<rparr>)
       (req_of ''webdav'' ''1.0'' []))))
   \<and> buf (broadcast (eventBus (snd (Handshake no_faults ''inst-0'' ''tok-0'' 0
       ((NewManager cfg_open empty_repo)\<lparr>eventBus := Subscribe ''inst-9'' NewEventBus\<rparr>)
       (req_of ''webdav'' ''1.0'' []))))) = []
   \<and> map_option buf (subs (eventBus (snd (Handshake no_faults ''inst-0'' ''tok-0'' 0
       ((NewManager cfg_open empty_repo)\<lparr>eventBus := Subscribe ''inst-9'' NewEventBus\<rparr>)
       (req_of ''webdav'' ''1.0'' [])))) ''inst-9'')
     = Some [connected_event (req_of ''webdav'' ''1.0'' [])]"
  by (simp add: Handshake_def NewManager_def cfg_open_def req_of_def
        isAPIVersionCompatible_def no_faults_def empty_repo_def UpsertDefinition_def
        CreateInstance_def new_definition_def new_instance_def accepted_def
        SendBroadcast_def Subscribe_def NewEventBus_def make_chan_def select_send_def)

subsection \<open>Version compatibility\<close>

text \<open>
  C6, as the code has it. Two versions are compatible exactly when their substrings
  before the first dot are equal; the five sample pairs come out as listed. A handshake
  whose declared api_version is incompatible with \<open>1.0\<close> is never accepted. Its reason is
  \<open>incompatible API version\<close> (FailedPrecondition) when the version check is reached:
  security disabled, or the token matches and the plugin id is on the allow-list. The
  token and allow-list checks come first and give their own reason when they fail.
\<close>

theorem version_gate:
  "(isAPIVersionCompatible plugin core \<longleftrightarrow> before_first_dot plugin = before_first_dot core)
   \<and> isAPIVersionCompatible ''1.0'' ''1.0'' \<and> isAPIVersionCompatible ''1.1'' ''1.0''
   \<and> isAPIVersionCompatible ''1.0.0'' ''1.0'' \<and> \<not> isAPIVersionCompatible ''2.0'' ''1.0''
   \<and> \<not> isAPIVersionCompatible ''1.0'' ''2.0''
   \<and> (\<not> isAPIVersionCompatible (hq_ApiVersion req) ''1.0'' \<longrightarrow>
        \<not> hr_Accepted (fst (fst (Handshake g sid tok now m req))) \<and>
        ((\<not> s_Enabled (config m) \<or>
          (hq_Token req = s_PluginToken (config m)
           \<and> hq_PluginId req \<in> set (s_AllowedPlugins (config m))))
          \<longrightarrow> Handshake g sid tok now m req =
               ((rejected ''incompatible API version'',
                 Some (FailedPrecondition, ''incompatible API version'')), m)))"
proof -
  have iff: "isAPIVersionCompatible plugin core
               \<longleftrightarrow> before_first_dot plugin = before_first_dot core"
    by (rule isAPIVersionCompatible_iff)
  have ex: "isAPIVersionCompatible ''1.0'' ''1.0''" "isAPIVersionCompatible ''1.1'' ''1.0''"
    "isAPIVersionCompatible ''1.0.0'' ''1.0''" "\<not> isAPIVersionCompatible ''2.0'' ''1.0''"
    "\<not> isAPIVersionCompatible ''1.0'' ''2.0''"
    by (simp_all add: isAPIVersionCompatible_def)
  have hs: "\<not> isAPIVersionCompatible (hq_ApiVersion req) ''1.0'' \<longrightarrow>
        \<not> hr_Accepted (fst (fst (Handshake g sid tok now m req))) \<and>
        ((\<not> s_Enabled (config m) \<or>
          (hq_Token req = s_PluginToken (config m)
           \<and> hq_PluginId req \<in> set (s_AllowedPlugins (config m))))
          \<longrightarrow> Handshake g sid tok now m req =
               ((rejected ''incompatible API version'',
                 Some (FailedPrecondition, ''incompatible API version'')), m))"
    by (simp add: Handshake_def rejected_def allowed_loop_iff)
  from iff ex hs show ?thesis by blast
qed

text \<open>The theorem on a version-2 plugin, once with security off and once listed.\<close>

theorem version_gate_witness:
  "\<not> isAPIVersionCompatible (hq_ApiVersion (req_of ''webdav'' ''2.0'' ''s3cret'')) ''1.0''
   \<and> \<not> s_Enabled (config (NewManager cfg_open empty_repo))
   \<and> Handshake no_faults ''inst-0'' ''tok-0'' 0 (NewManager cfg_open empty_repo)
        (req_of ''webdav'' ''2.0'' ''s3cret'')
      = ((rejected ''incompatible API version'',
          Some (FailedPrecondition, ''incompatible API version'')),
         NewManager cfg_open empty_repo)
   \<and> hq_Token (req_of ''webdav'' ''2.0'' ''s3cret'')
       = s_PluginToken (config (NewManager cfg_listed empty_repo))
   \<and> hq_PluginId (req_of ''webdav'' ''2.0'' ''s3cret'')
       \<in> set (s_AllowedPlugins (config (NewManager cfg_listed empty_repo)))
   \<and> Handshake no_faults ''inst-0'' ''tok-0'' 0 (NewManager cfg_listed empty_repo)
        (req_of ''webdav'' ''2.0'' ''s3cret'')
      = ((rejected ''incompatible API version'',
          Some (FailedPrecondition, ''incompatible API version'')),
         NewManager cfg_listed empty_repo)"
proof -
  have bad: "\<not> isAPIVersionCompatible (hq_ApiVersion (req_of ''webdav'' ''2.0'' ''s3cret'')) ''1.0''"
    by (simp add: isAPIVersionCompatible_def req_of_def)
  from bad
    version_gate [of "''2.0''" "''1.0''" "req_of ''webdav'' ''2.0'' ''s3cret''" no_faults
                     "''inst-0''" "''tok-0''" 0 "NewManager cfg_open empty_repo"]
    version_gate [of "''2.0''" "''1.0''" "req_of ''webdav'' ''2.0'' ''s3cret''" no_faults
                     "''inst-0''" "''tok-0''" 0 "NewManager cfg_listed empty_repo"]
  show ?thesis
    by (simp add: NewManager_def cfg_open_def cfg_listed_def req_of_def)
qed

text \<open>
  C6 as stated fails on the reason: with security enabled and a wrong token, a handshake
  declaring api_version \<open>2.0\<close> is rejected with \<open>invalid token\<close>, not with the
  version-incompatibility reason.
\<close>

theorem version_reason_counterexample:
  "\<not> isAPIVersionCompatible (hq_ApiVersion (req_of ''webdav'' ''2.0'' ''wrong'')) ''1.0''
   \<and> fst (Handshake no_faults ''inst-0'' ''tok-0'' 0 (NewManager cfg_secure empty_repo)
            (req_of ''webdav'' ''2.0'' ''wrong''))
       = (rejected ''invalid token'', Some (Unauthenticated, ''invalid token''))
   \<and> hr_Error (rejected ''invalid token'') \<noteq> ''incompatible API version''"
  by (simp add: isAPIVersionCompatible_def Handshake_def NewManager_def cfg_secure_def
        req_of_def rejected_def)

subsection \<open>Direct sends\<close>

text \<open>
  C7. A direct send to an id with no mapped queue fails with \<open>plugin_not_found\<close>; that is
  the case on a new bus and again after Subscribe followed by Unsubscribe. After
  Subscribe, with nothing received, fifty sends all succeed and fill the queue, and the
  next send returns at once with \<open>channel_full\<close>. Every failing send returns the bus as it
  was: subscriber table and queue contents unchanged.
\<close>

theorem send_direct_failures:
  "(subs eb ident = None \<longrightarrow>
      SendDirect ident event eb =
        (Some \<lparr>err_Code = ErrPluginNotFound,
               err_Message = ''plugin not found or not subscribed''\<rparr>, eb))
   \<and> subs NewEventBus ident = None
   \<and> subs (Unsubscribe ident (Subscribe ident eb)) ident = None
   \<and> (length events = 50 \<longrightarrow>
        fst (SendDirect_each ident events (Subscribe ident eb)) = replicate 50 None
      \<and> subs (snd (SendDirect_each ident events (Subscribe ident eb))) ident
          = Some \<lparr>buf = events, cap = 50\<rparr>
      \<and> SendDirect ident event (snd (SendDirect_each ident events (Subscribe ident eb)))
          = (Some \<lparr>err_Code = ErrChannelFull,
                   err_Message = ''plugin event channel is full''\<rparr>,
             snd (SendDirect_each ident events (Subscribe ident eb))))
   \<and> (fst (SendDirect ident event eb) \<noteq> None \<longrightarrow> snd (SendDirect ident event eb) = eb)"
proof -
  have a: "subs eb ident = None \<longrightarrow>
      SendDirect ident event eb =
        (Some \<lparr>err_Code = ErrPluginNotFound,
               err_Message = ''plugin not found or not subscribed''\<rparr>, eb)"
    by (simp add: SendDirect_def)
  have b: "subs NewEventBus ident = None" by (simp add: NewEventBus_def)
  have c: "subs (Unsubscribe ident (Subscribe ident eb)) ident = None"
    by (simp add: Unsubscribe_def Subscribe_def)
  have d: "fst (SendDirect_each ident events (Subscribe ident eb)) = replicate 50 None
      \<and> subs (snd (SendDirect_each ident events (Subscribe ident eb))) ident
          = Some \<lparr>buf = events, cap = 50\<rparr>
      \<and> SendDirect ident event (snd (SendDirect_each ident events (Subscribe ident eb)))
          = (Some \<lparr>err_Code = ErrChannelFull,
                   err_Message = ''plugin event channel is full''\<rparr>,
             snd (SendDirect_each ident events (Subscribe ident eb)))"
    if len: "length events = 50"
  proof -
    have s: "subs (Subscribe ident eb) ident = Some (make_chan 50)"
      by (simp add: Subscribe_def)
    have "length (buf (make_chan 50)) + length events \<le> cap (make_chan 50)"
      using len by (simp add: make_chan_def)
    from SendDirect_each_room [OF s this] len show ?thesis
      by (simp add: make_chan_def SendDirect_def select_send_def)
  qed
  have e: "fst (SendDirect ident event eb) \<noteq> None \<longrightarrow> snd (SendDirect ident event eb) = eb"
    by (simp add: SendDirect_def split: option.splits)
  from a b c d e show ?thesis by blast
qed

text \<open>The theorem on a new bus, for the id \<open>plugin-1\<close> and fifty copies of one event.\<close>

theorem send_direct_failures_witness:
  "subs NewEventBus ''plugin-1'' = None
   \<and> fst (SendDirect ''plugin-1'' ping NewEventBus) \<noteq> None
   \<and> snd (SendDirect ''plugin-1'' ping NewEventBus) = NewEventBus
   \<and> length (replicate 50 ping) = 50
   \<and> fst (SendDirect_each ''plugin-1'' (replicate 50 ping) (Subscribe ''plugin-1'' NewEventBus))
       = replicate 50 None
   \<and> fst (SendDirect ''plugin-1'' ping
        (snd (SendDirect_each ''plugin-1'' (replicate 50 ping)
                (Subscribe ''plugin-1'' NewEventBus))))
       = Some \<lparr>err_Code = ErrChannelFull, err_Message = ''plugin event channel is full''\<rparr>"
proof -
  have none: "subs NewEventBus ''plugin-1'' = None"
    by (simp add: NewEventBus_def)
  have len: "length (replicate 50 ping) = 50"
    by simp
  from none len
    send_direct_failures [of NewEventBus "''plugin-1''" ping "replicate 50 ping"]
  show ?thesis by simp
qed

subsection \<open>Heartbeat\<close>

text \<open>
  C4, as the code has it. A heartbeat whose read of the session id fails, or finds no
  Instance, answers ok=false (\<open>session not found\<close>) and changes nothing. One that reads
  an Instance whose auth token differs from the request's answers ok=false
  (\<open>invalid auth token\<close>) and leaves the manager, and with it the Instance, unchanged.
  One whose token matches answers ok=true and makes one write: the Instance with
  last_heartbeat set to \<open>now\<close> and status \<open>running\<close>, whatever its status was. When the
  gateway takes the write, that is the stored Instance; when the gateway rejects it, the
  answer is ok=true all the same and the Instance stays as it was.
\<close>

theorem heartbeat_outcomes:
  "(get_fails g (bq_SessionId req) \<or> stored_instance (repo m) (bq_SessionId req) = None \<longrightarrow>
      Heartbeat g now m req =
        ((\<lparr>br_Ok = False, br_Message = ''session not found''\<rparr>,
          Some (NotFound, ''session not found'')), m))
   \<and> (\<not> get_fails g (bq_SessionId req)
        \<and> stored_instance (repo m) (bq_SessionId req) = Some inst
        \<and> i_AuthToken inst \<noteq> bq_AuthToken req \<longrightarrow>
      Heartbeat g now m req =
        ((\<lparr>br_Ok = False, br_Message = ''invalid auth token''\<rparr>,
          Some (Unauthenticated, ''invalid auth token'')), m))
   \<and> (\<not> get_fails g (bq_SessionId req)
        \<and> stored_instance (repo m) (bq_SessionId req) = Some inst
        \<and> i_AuthToken inst = bq_AuthToken req \<longrightarrow>
      fst (Heartbeat g now m req) = (\<lparr>br_Ok = True, br_Message = ''ok''\<rparr>, None)
      \<and> journal (repo (snd (Heartbeat g now m req))) =
          journal (repo m) @
            [\<lparr>at_call = UpdateInstanceCall
                          (inst\<lparr>i_LastHeartbeat := Some now, i_Status := PluginStatusRunning\<rparr>),
              at_definitions = plugin_definitions (repo m),
              at_error =
                (if update_fails g
                      (inst\<lparr>i_LastHeartbeat := Some now, i_Status := PluginStatusRunning\<rparr>)
                 then Some ''database error'' else None)\<rparr>]
      \<and> (\<not> update_fails g (inst\<lparr>i_LastHeartbeat := Some now, i_Status := PluginStatusRunning\<rparr>)
           \<longrightarrow> stored_instance (repo (snd (Heartbeat g now m req))) (bq_SessionId req)
                 = Some (inst\<lparr>i_LastHeartbeat := Some now, i_Status := PluginStatusRunning\<rparr>))
      \<and> (update_fails g (inst\<lparr>i_LastHeartbeat := Some now, i_Status := PluginStatusRunning\<rparr>)
           \<longrightarrow> plugin_instances (repo (snd (Heartbeat g now m req))) = plugin_instances (repo m)
             \<and> stored_instance (repo (snd (Heartbeat g now m req))) (bq_SessionId req)
                 = Some inst))"
proof -
  let ?sid = "bq_SessionId req"
  let ?inst' = "inst\<lparr>i_LastHeartbeat := Some now, i_Status := PluginStatusRunning\<rparr>"
  have a: "get_fails g ?sid \<or> stored_instance (repo m) ?sid = None \<longrightarrow>
      Heartbeat g now m req =
        ((\<lparr>br_Ok = False, br_Message = ''session not found''\<rparr>,
          Some (NotFound, ''session not found'')), m)"
  proof
    assume "get_fails g ?sid \<or> stored_instance (repo m) ?sid = None"
    from GetInstance_Inl [OF this] show "Heartbeat g now m req =
        ((\<lparr>br_Ok = False, br_Message = ''session not found''\<rparr>,
          Some (NotFound, ''session not found'')), m)"
      by (simp add: Heartbeat_def)
  qed
  have b: "\<not> get_fails g ?sid \<and> stored_instance (repo m) ?sid = Some inst
        \<and> i_AuthToken inst \<noteq> bq_AuthToken req \<longrightarrow>
      Heartbeat g now m req =
        ((\<lparr>br_Ok = False, br_Message = ''invalid auth token''\<rparr>,
          Some (Unauthenticated, ''invalid auth token'')), m)"
    by (simp add: Heartbeat_def GetInstance_def)
  have c: "fst (Heartbeat g now m req) = (\<lparr>br_Ok = True, br_Message = ''ok''\<rparr>, None)
      \<and> journal (repo (snd (Heartbeat g now m req))) =
          journal (repo m) @
            [\<lparr>at_call = UpdateInstanceCall ?inst',
              at_definitions = plugin_definitions (repo m),
              at_error = (if update_fails g ?inst' then Some ''database error'' else None)\<rparr>]
      \<and> (\<not> update_fails g ?inst'
           \<longrightarrow> stored_instance (repo (snd (Heartbeat g now m req))) ?sid = Some ?inst')
      \<and> (update_fails g ?inst'
           \<longrightarrow> plugin_instances (repo (snd (Heartbeat g now m req))) = plugin_instances (repo m)
             \<and> stored_instance (repo (snd (Heartbeat g now m req))) ?sid = Some inst)"
    if rd: "\<not> get_fails g ?sid" and got: "stored_instance (repo m) ?sid = Some inst"
      and tok: "i_AuthToken inst = bq_AuthToken req"
  proof -
    have c1: "fst (Heartbeat g now m req) = (\<lparr>br_Ok = True, br_Message = ''ok''\<rparr>, None)"
      by (simp add: Heartbeat_valid [OF rd got tok])
    have c2: "journal (repo (snd (Heartbeat g now m req))) =
          journal (repo m) @
            [\<lparr>at_call = UpdateInstanceCall ?inst',
              at_definitions = plugin_definitions (repo m),
              at_error = (if update_fails g ?inst' then Some ''database error'' else None)\<rparr>]"
      by (simp add: Heartbeat_valid [OF rd got tok] journal_UpdateInstance)
    have c3: "\<not> update_fails g ?inst'
           \<longrightarrow> stored_instance (repo (snd (Heartbeat g now m req))) ?sid = Some ?inst'"
      using Heartbeat_stored [OF rd got tok] by blast
    have c4: "update_fails g ?inst'
           \<longrightarrow> plugin_instances (repo (snd (Heartbeat g now m req))) = plugin_instances (repo m)
             \<and> stored_instance (repo (snd (Heartbeat g now m req))) ?sid = Some inst"
      using Heartbeat_not_stored [OF rd got tok] by blast
    from c1 c2 c3 c4 show ?thesis by (intro conjI)
  qed
  from a b c show ?thesis by blast
qed

text \<open>
  The theorem on a table of four instances: unknown id, failed read, wrong token, right
  token.
\<close>

theorem heartbeat_outcomes_witness:
  "stored_instance (repo (NewManager cfg_open sample_repo)) ''zzz'' = None
   \<and> fst (fst (Heartbeat no_faults 100 (NewManager cfg_open sample_repo) (beat ''zzz'' ''tok-a'')))
       = \<lparr>br_Ok = False, br_Message = ''session not found''\<rparr>
   \<and> get_fails read_down ''b''
   \<and> fst (fst (Heartbeat read_down 100 (NewManager cfg_open sample_repo) (beat ''b'' ''tok-b'')))
       = \<lparr>br_Ok = False, br_Message = ''session not found''\<rparr>
   \<and> stored_instance (repo (NewManager cfg_open sample_repo)) ''b''
       = Some (sample_instance ''b'' PluginStatusStopped (Some 10))
   \<and> i_AuthToken (sample_instance ''b'' PluginStatusStopped (Some 10)) \<noteq> ''tok-a''
   \<and> Heartbeat no_faults 100 (NewManager cfg_open sample_repo) (beat ''b'' ''tok-a'')
       = ((\<lparr>br_Ok = False, br_Message = ''invalid auth token''\<rparr>,
           Some (Unauthenticated, ''invalid auth token'')), NewManager cfg_open sample_repo)
   \<and> i_AuthToken (sample_instance ''b'' PluginStatusStopped (Some 10)) = ''tok-b''
   \<and> fst (fst (Heartbeat no_faults 100 (NewManager cfg_open sample_repo) (beat ''b'' ''tok-b'')))
       = \<lparr>br_Ok = True, br_Message = ''ok''\<rparr>
   \<and> stored_instance (repo (snd (Heartbeat no_faults 100 (NewManager cfg_open sample_repo)
                                (beat ''b'' ''tok-b'')))) ''b''
       = Some (sample_instance ''b'' PluginStatusRunning (Some 100))"
proof -
  let ?m = "NewManager cfg_open sample_repo"
  let ?b = "sample_instance ''b'' PluginStatusStopped (Some 10)"
  have none: "stored_instance (repo ?m) ''zzz'' = None"
    by (simp add: stored_instance_def NewManager_def sample_repo_def sample_instance_def)
  have got: "stored_instance (repo ?m) ''b'' = Some ?b"
    by (simp add: stored_instance_def NewManager_def sample_repo_def sample_instance_def)
  have tb: "i_AuthToken ?b = ''tok-b''" and ta: "i_AuthToken ?b \<noteq> ''tok-a''"
    by (simp_all add: sample_instance_def)
  have rd: "get_fails read_down ''b''" and rok: "\<not> get_fails no_faults ''b''"
    by (simp_all add: read_down_def no_faults_def)
  have ok: "\<not> update_fails no_faults
              (?b\<lparr>i_LastHeartbeat := Some 100, i_Status := PluginStatusRunning\<rparr>)"
    by (simp add: no_faults_def)
  from none
    heartbeat_outcomes [of no_faults "beat ''zzz'' ''tok-a''" ?m 100 ?b, THEN conjunct1]
  have r1: "fst (fst (Heartbeat no_faults 100 ?m (beat ''zzz'' ''tok-a'')))
       = \<lparr>br_Ok = False, br_Message = ''session not found''\<rparr>"
    by (simp add: beat_def)
  from rd
    heartbeat_outcomes [of read_down "beat ''b'' ''tok-b''" ?m 100 ?b, THEN conjunct1]
  have r0: "fst (fst (Heartbeat read_down 100 ?m (beat ''b'' ''tok-b'')))
       = \<lparr>br_Ok = False, br_Message = ''session not found''\<rparr>"
    by (simp add: beat_def)
  from got ta rok
    heartbeat_outcomes [of no_faults "beat ''b'' ''tok-a''" ?m 100 ?b,
                        THEN conjunct2, THEN conjunct1]
  have r2: "Heartbeat no_faults 100 ?m (beat ''b'' ''tok-a'')
       = ((\<lparr>br_Ok = False, br_Message = ''invalid auth token''\<rparr>,
           Some (Unauthenticated, ''invalid auth token'')), ?m)"
    by (simp add: beat_def)
  have pre: "\<not> get_fails no_faults (bq_SessionId (beat ''b'' ''tok-b''))
             \<and> stored_instance (repo ?m) (bq_SessionId (beat ''b'' ''tok-b'')) = Some ?b
             \<and> i_AuthToken ?b = bq_AuthToken (beat ''b'' ''tok-b'')"
    using got tb rok by (simp add: beat_def)
  note r3 = heartbeat_outcomes [of no_faults "beat ''b'' ''tok-b''" ?m 100 ?b,
                    THEN conjunct2, THEN conjunct2, THEN mp, OF pre]
  from r3 have r3a: "fst (fst (Heartbeat no_faults 100 ?m (beat ''b'' ''tok-b'')))
       = \<lparr>br_Ok = True, br_Message = ''ok''\<rparr>"
    by simp
  from r3 [THEN conjunct2, THEN conjunct2, THEN conjunct1, THEN mp, OF ok]
  have r3b: "stored_instance (repo (snd (Heartbeat no_faults 100 ?m (beat ''b'' ''tok-b'')))) ''b''
       = Some (sample_instance ''b'' PluginStatusRunning (Some 100))"
    by (simp add: beat_def sample_instance_def)
  from none r1 rd r0 got ta r2 tb r3a r3b show ?thesis by (intro conjI)
qed

text \<open>
  C4 as stated fails when the gateway rejects the write: the heartbeat for the stopped
  instance \<open>b\<close> with the right token is answered ok=true, and \<open>b\<close> is still stored as
  stopped with its old heartbeat.
\<close>

theorem heartbeat_rejected_write_counterexample:
  "stored_instance (repo (NewManager cfg_open sample_repo)) ''b''
       = Some (sample_instance ''b'' PluginStatusStopped (Some 10))
   \<and> i_AuthToken (sample_instance ''b'' PluginStatusStopped (Some 10)) = ''tok-b''
   \<and> fst (Heartbeat update_down 100 (NewManager cfg_open sample_repo) (beat ''b'' ''tok-b''))
       = (\<lparr>br_Ok = True, br_Message = ''ok''\<rparr>, None)
   \<and> stored_instance (repo (snd (Heartbeat update_down 100 (NewManager cfg_open sample_repo)
                                (beat ''b'' ''tok-b'')))) ''b''
       = Some (sample_instance ''b'' PluginStatusStopped (Some 10))
   \<and> i_Status (sample_instance ''b'' PluginStatusStopped (Some 10)) \<noteq> PluginStatusRunning
   \<and> i_LastHeartbeat (sample_instance ''b'' PluginStatusStopped (Some 10)) \<noteq> Some 100"
  by (simp add: Heartbeat_def GetInstance_def stored_instance_def NewManager_def sample_repo_def
        sample_instance_def beat_def update_down_def no_faults_def UpdateInstance_def
        attempted_def PluginStatusStopped_def PluginStatusRunning_def)

text \<open>
  C10, as the code has it. A heartbeat with the right token whose read is served answers
  ok=true and writes the Instance with status \<open>running\<close> and the enabled flag as stored,
  whatever the previous status. When the gateway takes the write, the stored status is
  \<open>running\<close> and the enabled flag is unchanged; so an Instance that
  \<^verbatim>\<open>SetInstanceEnabled\<close> has disabled (stored as stopped, enabled=false) is stored as
  running with enabled=false after its next valid heartbeat. When the gateway rejects the
  write, the answer is still ok=true and the Instance stays as it was: a disabled one
  stays stopped.
\<close>

theorem heartbeat_revives_disabled:
  assumes "stored_instance (repo m) sid = Some inst" and "bq_SessionId req = sid"
    and "i_AuthToken inst = bq_AuthToken req"
  shows "(\<not> get_fails g sid \<longrightarrow>
        fst (Heartbeat g now m req) = (\<lparr>br_Ok = True, br_Message = ''ok''\<rparr>, None)
      \<and> at_call (last (journal (repo (snd (Heartbeat g now m req)))))
          = UpdateInstanceCall
              (inst\<lparr>i_LastHeartbeat := Some now, i_Status := PluginStatusRunning\<rparr>)
      \<and> (\<not> update_fails g (inst\<lparr>i_LastHeartbeat := Some now, i_Status := PluginStatusRunning\<rparr>)
          \<longrightarrow> map_option i_Status (stored_instance (repo (snd (Heartbeat g now m req))) sid)
                = Some PluginStatusRunning
            \<and> map_option i_Enabled (stored_instance (repo (snd (Heartbeat g now m req))) sid)
                = Some (i_Enabled inst))
      \<and> (update_fails g (inst\<lparr>i_LastHeartbeat := Some now, i_Status := PluginStatusRunning\<rparr>)
          \<longrightarrow> stored_instance (repo (snd (Heartbeat g now m req))) sid = Some inst))
     \<and> (\<not> get_fails g1 sid
        \<and> \<not> update_fails g1 (inst\<lparr>i_Enabled := False, i_Status := PluginStatusStopped\<rparr>)
        \<and> \<not> get_fails g2 sid
        \<longrightarrow> stored_instance (repo (snd (SetInstanceEnabled g1 m sid False))) sid
              = Some (inst\<lparr>i_Enabled := False, i_Status := PluginStatusStopped\<rparr>)
          \<and> fst (Heartbeat g2 now (snd (SetInstanceEnabled g1 m sid False)) req)
              = (\<lparr>br_Ok = True, br_Message = ''ok''\<rparr>, None)
          \<and> at_call (last (journal (repo (snd
                (Heartbeat g2 now (snd (SetInstanceEnabled g1 m sid False)) req)))))
              = UpdateInstanceCall (inst\<lparr>i_Enabled := False, i_LastHeartbeat := Some now,
                                         i_Status := PluginStatusRunning\<rparr>)
          \<and> (\<not> update_fails g2 (inst\<lparr>i_Enabled := False, i_LastHeartbeat := Some now,
                                       i_Status := PluginStatusRunning\<rparr>)
              \<longrightarrow> stored_instance (repo (snd
                      (Heartbeat g2 now (snd (SetInstanceEnabled g1 m sid False)) req))) sid
                    = Some (inst\<lparr>i_Enabled := False, i_LastHeartbeat := Some now,
                                 i_Status := PluginStatusRunning\<rparr>))
          \<and> (update_fails g2 (inst\<lparr>i_Enabled := False, i_LastHeartbeat := Some now,
                                     i_Status := PluginStatusRunning\<rparr>)
              \<longrightarrow> stored_instance (repo (snd
                      (Heartbeat g2 now (snd (SetInstanceEnabled g1 m sid False)) req))) sid
                    = Some (inst\<lparr>i_Enabled := False, i_Status := PluginStatusStopped\<rparr>)))"
proof -
  from assms have got: "stored_instance (repo m) (bq_SessionId req) = Some inst" by simp
  let ?run = "inst\<lparr>i_LastHeartbeat := Some now, i_Status := PluginStatusRunning\<rparr>"
  have a: "fst (Heartbeat g now m req) = (\<lparr>br_Ok = True, br_Message = ''ok''\<rparr>, None)
      \<and> at_call (last (journal (repo (snd (Heartbeat g now m req))))) = UpdateInstanceCall ?run
      \<and> (\<not> update_fails g ?run
          \<longrightarrow> map_option i_Status (stored_instance (repo (snd (Heartbeat g now m req))) sid)
                = Some PluginStatusRunning
            \<and> map_option i_Enabled (stored_instance (repo (snd (Heartbeat g now m req))) sid)
                = Some (i_Enabled inst))
      \<and> (update_fails g ?run
          \<longrightarrow> stored_instance (repo (snd (Heartbeat g now m req))) sid = Some inst)"
    if rd: "\<not> get_fails g sid"
  proof -
    from rd assms(2) have rd': "\<not> get_fails g (bq_SessionId req)" by simp
    have a1: "fst (Heartbeat g now m req) = (\<lparr>br_Ok = True, br_Message = ''ok''\<rparr>, None)"
      by (simp add: Heartbeat_valid [OF rd' got assms(3)])
    have a2: "at_call (last (journal (repo (snd (Heartbeat g now m req)))))
                = UpdateInstanceCall ?run"
      by (simp add: Heartbeat_valid [OF rd' got assms(3)] journal_UpdateInstance)
    have a3: "\<not> update_fails g ?run
          \<longrightarrow> map_option i_Status (stored_instance (repo (snd (Heartbeat g now m req))) sid)
                = Some PluginStatusRunning
            \<and> map_option i_Enabled (stored_instance (repo (snd (Heartbeat g now m req))) sid)
                = Some (i_Enabled inst)"
    proof
      assume "\<not> update_fails g ?run"
      from Heartbeat_stored [OF rd' got assms(3) this] assms(2)
      show "map_option i_Status (stored_instance (repo (snd (Heartbeat g now m req))) sid)
                = Some PluginStatusRunning
            \<and> map_option i_Enabled (stored_instance (repo (snd (Heartbeat g now m req))) sid)
                = Some (i_Enabled inst)"
        by simp
    qed
    have a4: "update_fails g ?run
          \<longrightarrow> stored_instance (repo (snd (Heartbeat g now m req))) sid = Some inst"
      using Heartbeat_not_stored [OF rd' got assms(3)] assms(2) by blast
    from a1 a2 a3 a4 show ?thesis by (intro conjI)
  qed
  let ?off = "inst\<lparr>i_Enabled := False, i_Status := PluginStatusStopped\<rparr>"
  let ?on = "inst\<lparr>i_Enabled := False, i_LastHeartbeat := Some now,
                  i_Status := PluginStatusRunning\<rparr>"
  let ?m1 = "snd (SetInstanceEnabled g1 m sid False)"
  have c: "stored_instance (repo ?m1) sid = Some ?off
          \<and> fst (Heartbeat g2 now ?m1 req) = (\<lparr>br_Ok = True, br_Message = ''ok''\<rparr>, None)
          \<and> at_call (last (journal (repo (snd (Heartbeat g2 now ?m1 req)))))
              = UpdateInstanceCall ?on
          \<and> (\<not> update_fails g2 ?on
              \<longrightarrow> stored_instance (repo (snd (Heartbeat g2 now ?m1 req))) sid = Some ?on)
          \<and> (update_fails g2 ?on
              \<longrightarrow> stored_instance (repo (snd (Heartbeat g2 now ?m1 req))) sid = Some ?off)"
    if r1: "\<not> get_fails g1 sid" and w1: "\<not> update_fails g1 ?off" and r2: "\<not> get_fails g2 sid"
  proof -
    from assms(1) have id: "i_ID ?off = sid" by (simp add: stored_instance_ID)
    from assms(1) id have "stored_instance (repo m) (i_ID ?off) = Some inst" by simp
    from stored_after_update [OF w1 this] id
    have off: "stored_instance (repo ?m1) sid = Some ?off"
      by (simp add: SetInstanceEnabled_off [OF r1 assms(1)])
    from off assms(2) have got1: "stored_instance (repo ?m1) (bq_SessionId req) = Some ?off"
      by simp
    from r2 assms(2) have r2': "\<not> get_fails g2 (bq_SessionId req)" by simp
    from assms(3) have tok1: "i_AuthToken ?off = bq_AuthToken req" by simp
    have same: "?off\<lparr>i_LastHeartbeat := Some now, i_Status := PluginStatusRunning\<rparr> = ?on"
      by simp
    have ok: "fst (Heartbeat g2 now ?m1 req) = (\<lparr>br_Ok = True, br_Message = ''ok''\<rparr>, None)"
      by (simp add: Heartbeat_valid [OF r2' got1 tok1])
    have sub: "at_call (last (journal (repo (snd (Heartbeat g2 now ?m1 req)))))
              = UpdateInstanceCall ?on"
      by (simp add: Heartbeat_valid [OF r2' got1 tok1] journal_UpdateInstance)
    have on: "\<not> update_fails g2 ?on
              \<longrightarrow> stored_instance (repo (snd (Heartbeat g2 now ?m1 req))) sid = Some ?on"
      using Heartbeat_stored [OF r2' got1 tok1, of now] assms(2) same by simp
    have stay: "update_fails g2 ?on
              \<longrightarrow> stored_instance (repo (snd (Heartbeat g2 now ?m1 req))) sid = Some ?off"
      using Heartbeat_not_stored [OF r2' got1 tok1, of now] assms(2) same by simp
    from off ok sub on stay show ?thesis by (intro conjI)
  qed
  from a c show ?thesis by blast
qed

text \<open>The theorem on instance \<open>a\<close>: disabled, then revived by its heartbeat.\<close>

theorem heartbeat_revives_disabled_witness:
  "stored_instance (repo (NewManager cfg_open sample_repo)) ''a''
     = Some (sample_instance ''a'' PluginStatusRunning (Some 10))
   \<and> i_AuthToken (sample_instance ''a'' PluginStatusRunning (Some 10))
       = bq_AuthToken (beat ''a'' ''tok-a'')
   \<and> map_option (\<lambda>i. (i_Status i, i_Enabled i))
       (stored_instance (repo (snd (SetInstanceEnabled no_faults
                                  (NewManager cfg_open sample_repo) ''a'' False))) ''a'')
       = Some (PluginStatusStopped, False)
   \<and> map_option (\<lambda>i. (i_Status i, i_Enabled i))
       (stored_instance (repo (snd (Heartbeat no_faults 100
          (snd (SetInstanceEnabled no_faults (NewManager cfg_open sample_repo) ''a'' False))
          (beat ''a'' ''tok-a'')))) ''a'')
       = Some (PluginStatusRunning, False)"
proof -
  let ?m = "NewManager cfg_open sample_repo"
  let ?i = "sample_instance ''a'' PluginStatusRunning (Some 10)"
  have got: "stored_instance (repo ?m) ''a'' = Some ?i"
    by (simp add: stored_instance_def NewManager_def sample_repo_def sample_instance_def)
  have sid: "bq_SessionId (beat ''a'' ''tok-a'') = ''a''" by (simp add: beat_def)
  have tok: "i_AuthToken ?i = bq_AuthToken (beat ''a'' ''tok-a'')"
    by (simp add: beat_def sample_instance_def)
  have pre: "\<not> get_fails no_faults ''a''
        \<and> \<not> update_fails no_faults (?i\<lparr>i_Enabled := False, i_Status := PluginStatusStopped\<rparr>)
        \<and> \<not> get_fails no_faults ''a''"
    by (simp add: no_faults_def)
  have w: "\<not> update_fails no_faults (?i\<lparr>i_Enabled := False, i_LastHeartbeat := Some 100,
                                   i_Status := PluginStatusRunning\<rparr>)"
    by (simp add: no_faults_def)
  note R = heartbeat_revives_disabled [OF got sid tok, of no_faults 100 no_faults no_faults,
             THEN conjunct2, THEN mp, OF pre]
  from R have off: "map_option (\<lambda>i. (i_Status i, i_Enabled i))
       (stored_instance (repo (snd (SetInstanceEnabled no_faults ?m ''a'' False))) ''a'')
       = Some (PluginStatusStopped, False)"
    by simp
  from R [THEN conjunct2, THEN conjunct2, THEN conjunct2, THEN conjunct1, THEN mp, OF w]
  have on: "map_option (\<lambda>i. (i_Status i, i_Enabled i))
       (stored_instance (repo (snd (Heartbeat no_faults 100
          (snd (SetInstanceEnabled no_faults ?m ''a'' False)) (beat ''a'' ''tok-a'')))) ''a'')
       = Some (PluginStatusRunning, False)"
    by simp
  from got tok off on show ?thesis by (intro conjI)
qed

text \<open>
  C10 as stated fails when the gateway rejects the heartbeat's write: instance \<open>a\<close>,
  disabled, gets ok=true for its valid heartbeat and is still stored as stopped.
\<close>

theorem heartbeat_leaves_disabled_counterexample:
  "map_option (\<lambda>i. (i_Status i, i_Enabled i))
       (stored_instance (repo (snd (SetInstanceEnabled no_faults
                                  (NewManager cfg_open sample_repo) ''a'' False))) ''a'')
       = Some (PluginStatusStopped, False)
   \<and> fst (Heartbeat update_down 100
          (snd (SetInstanceEnabled no_faults (NewManager cfg_open sample_repo) ''a'' False))
          (beat ''a'' ''tok-a''))
       = (\<lparr>br_Ok = True, br_Message = ''ok''\<rparr>, None)
   \<and> map_option (\<lambda>i. (i_Status i, i_Enabled i))
       (stored_instance (repo (snd (Heartbeat update_down 100
          (snd (SetInstanceEnabled no_faults (NewManager cfg_open sample_repo) ''a'' False))
          (beat ''a'' ''tok-a'')))) ''a'')
       = Some (PluginStatusStopped, False)
   \<and> PluginStatusStopped \<noteq> PluginStatusRunning"
  by (simp add: Heartbeat_def SetInstanceEnabled_def GetInstance_def stored_instance_def
        NewManager_def sample_repo_def sample_instance_def beat_def update_down_def no_faults_def
        UpdateInstance_def attempted_def save_row_def SendDirect_def NewEventBus_def
        PluginStatusStopped_def PluginStatusRunning_def Let_def)

subsection \<open>Liveness sweep\<close>



text \<open>
  C9. When the configured timeout is a non-empty string that the duration parser
  rejects (it returns, as \<^verbatim>\<open>time.ParseDuration\<close> does, the zero duration with its
  error), the sweep drops the error and works with a timeout of zero: it is the loop run
  with \<open>now\<close> itself as cutoff, so a running Instance whose last heartbeat is strictly
  before \<open>now\<close> is stored as unhealthy (when the listing succeeds and the gateway takes
  the write). The \<open>30s\<close> default replaces the configured string only when that string
  is empty.
\<close>

theorem unparsable_timeout_is_zero:
  assumes "s_HeartbeatTimeout (config m) \<noteq> []"
    and "parse (s_HeartbeatTimeout (config m)) = (0, Some e)"
    and "\<not> list_fails g"
    and "distinct (map i_ID (plugin_instances (repo m)))"
    and "inst \<in> set (plugin_instances (repo m))"
    and "i_Status inst = PluginStatusRunning"
    and "i_LastHeartbeat inst = Some t" and "t < now"
    and "\<not> update_fails g (inst\<lparr>i_Status := PluginStatusUnhealthy\<rparr>)"
  shows "fst (parse (effective_timeout (config m))) = 0
       \<and> checkHeartbeats parse g now m
           = m\<lparr>repo := sweep g now (plugin_instances (repo m)) (repo m)\<rparr>
       \<and> stored_instance (repo (checkHeartbeats parse g now m)) (i_ID inst)
           = Some (inst\<lparr>i_Status := PluginStatusUnhealthy\<rparr>)
       \<and> (effective_timeout cfg = (if s_HeartbeatTimeout cfg = [] then ''30s''
                                    else s_HeartbeatTimeout cfg))"
proof -
  from assms(1,2) have z: "fst (parse (effective_timeout (config m))) = 0"
    by (simp add: effective_timeout_def)
  from assms(3) z have run: "checkHeartbeats parse g now m
           = m\<lparr>repo := sweep g now (plugin_instances (repo m)) (repo m)\<rparr>"
    by (simp add: checkHeartbeats_def ListInstances_def Let_def)
  have "stored_instance (repo (checkHeartbeats parse g now m)) (i_ID inst)
          = Some (swept g (now + sint (- fst (parse (effective_timeout (config m))))) inst)"
    by (rule checkHeartbeats_get [OF assms(4,3,5)])
  with z assms(6-9) have got: "stored_instance (repo (checkHeartbeats parse g now m)) (i_ID inst)
           = Some (inst\<lparr>i_Status := PluginStatusUnhealthy\<rparr>)"
    by (simp add: swept_def stale_def)
  have fb: "effective_timeout cfg = (if s_HeartbeatTimeout cfg = [] then ''30s''
                                    else s_HeartbeatTimeout cfg)"
    by (simp add: effective_timeout_def)
  from z run got fb show ?thesis by (intro conjI)
qed

text \<open>The theorem with the timeout \<open>thirty\<close>: a heartbeat at 99 is stale at 100.\<close>

theorem unparsable_timeout_is_zero_witness:
  "s_HeartbeatTimeout (config (NewManager cfg_garbled sample_repo)) \<noteq> []
   \<and> parse_sample (s_HeartbeatTimeout (config (NewManager cfg_garbled sample_repo)))
       = (0, Some ''time: invalid duration'')
   \<and> i_LastHeartbeat (sample_instance ''c'' PluginStatusRunning (Some 99)) = Some 99
   \<and> (99::int) < 100
   \<and> stored_instance (repo (checkHeartbeats parse_sample no_faults 100
                          (NewManager cfg_garbled sample_repo))) ''c''
        = Some (sample_instance ''c'' PluginStatusUnhealthy (Some 99))"
proof -
  let ?m = "NewManager cfg_garbled sample_repo"
  have ne: "s_HeartbeatTimeout (config ?m) \<noteq> []"
    by (simp add: NewManager_def cfg_garbled_def)
  have bad: "parse_sample (s_HeartbeatTimeout (config ?m)) = (0, Some ''time: invalid duration'')"
    by (simp add: NewManager_def cfg_garbled_def parse_sample_def)
  have l: "\<not> list_fails no_faults" by (simp add: no_faults_def)
  have d: "distinct (map i_ID (plugin_instances (repo ?m)))"
    by (simp add: NewManager_def sample_repo_def sample_instance_def)
  have inc: "sample_instance ''c'' PluginStatusRunning (Some 99)
               \<in> set (plugin_instances (repo ?m))"
    by (simp add: NewManager_def sample_repo_def)
  have st: "i_Status (sample_instance ''c'' PluginStatusRunning (Some 99)) = PluginStatusRunning"
    and hb: "i_LastHeartbeat (sample_instance ''c'' PluginStatusRunning (Some 99)) = Some 99"
    by (simp_all add: sample_instance_def)
  have lt: "(99::int) < 100" by simp
  have ok: "\<not> update_fails no_faults
              ((sample_instance ''c'' PluginStatusRunning (Some 99))
                 \<lparr>i_Status := PluginStatusUnhealthy\<rparr>)"
    by (simp add: no_faults_def)
  from unparsable_timeout_is_zero [where parse = parse_sample and m = ?m, OF ne bad l d inc st hb lt ok, THEN conjunct2, THEN conjunct2, THEN conjunct1]
  have "stored_instance (repo (checkHeartbeats parse_sample no_faults 100 ?m)) ''c''
        = Some (sample_instance ''c'' PluginStatusUnhealthy (Some 99))"
    by (simp add: sample_instance_def)
  with ne bad hb lt show ?thesis by (intro conjI)
qed

subsection \<open>Client session agent\<close>

text \<open>
  C8. \<^verbatim>\<open>Start\<close> sends one handshake request, the one built from the configuration.
  The agent has no state field; disconnected means no session id or auth token stored
  and no loop started. If the call fails, or is answered with accepted=false, \<^verbatim>\<open>Start\<close>
  returns an error and the agent is as before except for a fresh client without session:
  no goroutine started, wait group untouched. If it is accepted, \<^verbatim>\<open>Start\<close> returns no
  error, stores the issued session id and auth token, starts the heartbeat loop, and
  starts the event loop exactly when an event handler is configured.
\<close>

theorem start_one_handshake:
  "received (snd (snd (Plugin_Start p w))) = received w @ [handshake_request (p_config p)]
   \<and> (respond w (handshake_request (p_config p)) = Inl e \<longrightarrow>
        fst (Plugin_Start p w) = Some e
      \<and> fst (snd (Plugin_Start p w)) =
          p\<lparr>p_client := Some \<lparr>cl_CoreAddr = pc_CoreAddr (p_config p), cl_SessionID = [],
                               cl_AuthToken = []\<rparr>\<rparr>
      \<and> p_goroutines (fst (snd (Plugin_Start p w))) = p_goroutines p
      \<and> p_wg (fst (snd (Plugin_Start p w))) = p_wg p)
   \<and> (respond w (handshake_request (p_config p)) = Inr resp \<and> \<not> hr_Accepted resp \<longrightarrow>
        fst (Plugin_Start p w) = Some (''handshake rejected: '' @ hr_Error resp)
      \<and> fst (snd (Plugin_Start p w)) =
          p\<lparr>p_client := Some \<lparr>cl_CoreAddr = pc_CoreAddr (p_config p), cl_SessionID = [],
                               cl_AuthToken = []\<rparr>\<rparr>
      \<and> p_goroutines (fst (snd (Plugin_Start p w))) = p_goroutines p
      \<and> p_wg (fst (snd (Plugin_Start p w))) = p_wg p)
   \<and> (respond w (handshake_request (p_config p)) = Inr resp \<and> hr_Accepted resp \<longrightarrow>
        fst (Plugin_Start p w) = None
      \<and> p_client (fst (snd (Plugin_Start p w))) =
          Some \<lparr>cl_CoreAddr = pc_CoreAddr (p_config p), cl_SessionID = hr_SessionId resp,
                 cl_AuthToken = hr_AuthToken resp\<rparr>
      \<and> p_goroutines (fst (snd (Plugin_Start p w))) =
          p_goroutines p @ heartbeatLoop #
            (if pc_EventHandler (p_config p) \<noteq> None then [eventLoop] else [])
      \<and> p_wg (fst (snd (Plugin_Start p w))) =
          p_wg p + (if pc_EventHandler (p_config p) \<noteq> None then 2 else 1))"
proof -
  have a: "received (snd (snd (Plugin_Start p w)))
             = received w @ [handshake_request (p_config p)]"
    by (simp add: Plugin_Start_def client_Handshake_def Let_def split: sum.splits)
  have b: "respond w (handshake_request (p_config p)) = Inl e \<longrightarrow>
        fst (Plugin_Start p w) = Some e
      \<and> fst (snd (Plugin_Start p w)) =
          p\<lparr>p_client := Some \<lparr>cl_CoreAddr = pc_CoreAddr (p_config p), cl_SessionID = [],
                               cl_AuthToken = []\<rparr>\<rparr>
      \<and> p_goroutines (fst (snd (Plugin_Start p w))) = p_goroutines p
      \<and> p_wg (fst (snd (Plugin_Start p w))) = p_wg p"
    by (simp add: Plugin_Start_def client_Handshake_def Let_def)
  have c: "respond w (handshake_request (p_config p)) = Inr resp \<and> \<not> hr_Accepted resp \<longrightarrow>
        fst (Plugin_Start p w) = Some (''handshake rejected: '' @ hr_Error resp)
      \<and> fst (snd (Plugin_Start p w)) =
          p\<lparr>p_client := Some \<lparr>cl_CoreAddr = pc_CoreAddr (p_config p), cl_SessionID = [],
                               cl_AuthToken = []\<rparr>\<rparr>
      \<and> p_goroutines (fst (snd (Plugin_Start p w))) = p_goroutines p
      \<and> p_wg (fst (snd (Plugin_Start p w))) = p_wg p"
    by (simp add: Plugin_Start_def client_Handshake_def Let_def)
  have d: "respond w (handshake_request (p_config p)) = Inr resp \<and> hr_Accepted resp \<longrightarrow>
        fst (Plugin_Start p w) = None
      \<and> p_client (fst (snd (Plugin_Start p w))) =
          Some \<lparr>cl_CoreAddr = pc_CoreAddr (p_config p), cl_SessionID = hr_SessionId resp,
                 cl_AuthToken = hr_AuthToken resp\<rparr>
      \<and> p_goroutines (fst (snd (Plugin_Start p w))) =
          p_goroutines p @ heartbeatLoop #
            (if pc_EventHandler (p_config p) \<noteq> None then [eventLoop] else [])
      \<and> p_wg (fst (snd (Plugin_Start p w))) =
          p_wg p + (if pc_EventHandler (p_config p) \<noteq> None then 2 else 1)"
    by (simp add: Plugin_Start_def client_Handshake_def Let_def)
  from a b c d show ?thesis by (intro conjI)
qed

text \<open>The theorem on a new agent: call failed, rejected, accepted without and with handler.\<close>

theorem start_one_handshake_witness:
  "respond (core_answering (Inl ''connection refused''))
       (handshake_request (p_config (NewPlugin (sample_config None)))) = Inl ''connection refused''
   \<and> fst (Plugin_Start (NewPlugin (sample_config None))
             (core_answering (Inl ''connection refused''))) = Some ''connection refused''
   \<and> p_goroutines (fst (snd (Plugin_Start (NewPlugin (sample_config None))
             (core_answering (Inl ''connection refused''))))) = []
   \<and> \<not> hr_Accepted (rejected ''plugin not allowed'')
   \<and> fst (Plugin_Start (NewPlugin (sample_config None))
             (core_answering (Inr (rejected ''plugin not allowed''))))
       = Some ''handshake rejected: plugin not allowed''
   \<and> p_goroutines (fst (snd (Plugin_Start (NewPlugin (sample_config None))
             (core_answering (Inr (rejected ''plugin not allowed'')))))) = []
   \<and> hr_Accepted (accepted ''inst-0'' ''tok-0'')
   \<and> p_goroutines (fst (snd (Plugin_Start (NewPlugin (sample_config None))
             (core_answering (Inr (accepted ''inst-0'' ''tok-0'')))))) = [heartbeatLoop]
   \<and> p_goroutines (fst (snd (Plugin_Start (NewPlugin (sample_config (Some (\<lambda>ev. ()))))
             (core_answering (Inr (accepted ''inst-0'' ''tok-0''))))))
       = [heartbeatLoop, eventLoop]
   \<and> p_client (fst (snd (Plugin_Start (NewPlugin (sample_config None))
             (core_answering (Inr (accepted ''inst-0'' ''tok-0''))))))
       = Some \<lparr>cl_CoreAddr = ''localhost:8080'', cl_SessionID = ''inst-0'',
               cl_AuthToken = ''tok-0''\<rparr>"
proof -
  let ?p = "NewPlugin (sample_config None)"
  let ?q = "NewPlugin (sample_config (Some (\<lambda>ev. ())))"
  have down: "respond (core_answering (Inl ''connection refused''))
       (handshake_request (p_config ?p)) = Inl ''connection refused''"
    by (simp add: core_answering_def)
  have rej: "respond (core_answering (Inr (rejected ''plugin not allowed'')))
       (handshake_request (p_config ?p)) = Inr (rejected ''plugin not allowed'')
       \<and> \<not> hr_Accepted (rejected ''plugin not allowed'')"
    by (simp add: core_answering_def rejected_def)
  have accp: "respond (core_answering (Inr (accepted ''inst-0'' ''tok-0'')))
       (handshake_request (p_config ?p)) = Inr (accepted ''inst-0'' ''tok-0'')
       \<and> hr_Accepted (accepted ''inst-0'' ''tok-0'')"
    and accq: "respond (core_answering (Inr (accepted ''inst-0'' ''tok-0'')))
       (handshake_request (p_config ?q)) = Inr (accepted ''inst-0'' ''tok-0'')
       \<and> hr_Accepted (accepted ''inst-0'' ''tok-0'')"
    by (simp_all add: core_answering_def accepted_def)
  note D = start_one_handshake [of ?p "core_answering (Inl ''connection refused'')" "''connection refused''",
                   THEN conjunct2, THEN conjunct1, THEN mp, OF down]
  note R = start_one_handshake [of ?p "core_answering (Inr (rejected ''plugin not allowed''))" _
                      "rejected ''plugin not allowed''",
                   THEN conjunct2, THEN conjunct2, THEN conjunct1, THEN mp, OF rej]
  note P = start_one_handshake [of ?p "core_answering (Inr (accepted ''inst-0'' ''tok-0''))" _
                      "accepted ''inst-0'' ''tok-0''",
                   THEN conjunct2, THEN conjunct2, THEN conjunct2, THEN mp, OF accp]
  note Q = start_one_handshake [of ?q "core_answering (Inr (accepted ''inst-0'' ''tok-0''))" _
                      "accepted ''inst-0'' ''tok-0''",
                   THEN conjunct2, THEN conjunct2, THEN conjunct2, THEN mp, OF accq]
  from down D rej R accp P Q show ?thesis
    by (simp add: NewPlugin_def sample_config_def rejected_def accepted_def)
qed

end
